theory Spec2Isabelle
  imports Main
begin

section \<open>The shared API client (api-client.js)\<close>

subsection \<open>Values, exceptions and responses\<close>

text \<open>
  JavaScript values as far as the client handles them: a payload is whatever
  \<^verbatim>\<open>response.json()\<close> or \<^verbatim>\<open>response.text()\<close> delivers, or \<^verbatim>\<open>undefined\<close> when
  the \<^verbatim>\<open>parse\<close> option names no known format. The numbers of the options and
  of the clock are integers here: times in milliseconds, TTLs and retry
  counts; fractions, NaN and the infinities are not among them. The TTL that
  is computed from a response header is a double, see \<open>to_double\<close> below.
\<close>

datatype jsval =
    JUndefined
  | JNull
  | JBool bool
  | JNum int
  | JStr string
  | JArr "jsval list"
  | JObj "(string \<times> jsval) list"

text \<open>A thrown value: an object with a \<^verbatim>\<open>name\<close> and a \<^verbatim>\<open>message\<close>.\<close>

datatype exn = Exn (name: string) (message: string)

text \<open>
  What becomes of a promise that the code awaits: it is fulfilled with a value,
  it is rejected with an exception, or it never settles and the \<^verbatim>\<open>await\<close> never
  resumes.
\<close>

datatype 'a promise = Fulfilled 'a | Rejected exn | Pending

text \<open>
  A \<^verbatim>\<open>Response\<close>: its status line, what \<^verbatim>\<open>headers.get('cache-control')\<close>
  returns (\<open>None\<close> for \<^verbatim>\<open>null\<close>), and what becomes of reading the body as JSON
  or as text.
\<close>

record response =
  status :: nat
  statusText :: string
  cache_control :: "string option"
  body_json :: "jsval promise"
  body_text :: "string promise"

definition ok :: "response \<Rightarrow> bool" where
  "ok r = (200 \<le> status r \<and> status r \<le> 299)"

text \<open>
  One network exchange as the environment supplies it: how long the server
  takes to answer and what \<^verbatim>\<open>fetch\<close> would settle with, if it is not aborted
  first.
\<close>

datatype reply = Rejects exn | Responds response

record exchange =
  latency :: nat
  reply :: reply

subsection \<open>The session storage and the world\<close>

text \<open>
  A property of a stored record as far as the comparison
  \<^verbatim>\<open>Date.now() - cached.cachedAt < cached.ttl\<close> can tell: \<open>Number n\<close> is a value
  that converts to the number \<open>n\<close>; \<open>Null\<close> is \<^verbatim>\<open>null\<close>, which converts to 0;
  \<open>NotANumber\<close> is a value that converts to NaN, as a missing property does;
  \<open>Unconvertible\<close> is an object that has no primitive value, such as
  \<^verbatim>\<open>{"toString": 1}\<close>, on which the conversion throws a \<^verbatim>\<open>TypeError\<close>.
\<close>

datatype field = Number int | Null | NotANumber | Unconvertible

text \<open>
  The text stored under a key is represented by what \<^verbatim>\<open>JSON.parse\<close> makes of
  it and by what \<^verbatim>\<open>apiFetch\<close> can observe of the result: \<open>Empty\<close> is the empty
  text; \<open>Unparseable\<close> is a text on which \<^verbatim>\<open>JSON.parse\<close> throws; \<open>Text Falsy\<close>
  parses to a falsy value (\<^verbatim>\<open>null\<close>, \<^verbatim>\<open>false\<close>, \<^verbatim>\<open>0\<close>, \<^verbatim>\<open>""\<close>);
  \<open>Text (Entry d c t)\<close> parses to a truthy value whose \<^verbatim>\<open>data\<close> property reads
  \<open>d\<close> (\<open>JUndefined\<close> if it has none) and whose \<^verbatim>\<open>cachedAt\<close> and \<^verbatim>\<open>ttl\<close>
  properties are \<open>c\<close> and \<open>t\<close>.
\<close>

datatype parsed =
    Falsy
  | Entry (cached_data: jsval) (cachedAt: field) (ttl: field)

datatype raw = Empty | Unparseable | Text parsed

datatype event = Fetch string | Sleep int

text \<open>
  The world a call runs in: the items of \<^verbatim>\<open>sessionStorage\<close>, whether reading
  or writing it throws (storage disabled, quota exceeded), the clock behind
  \<^verbatim>\<open>Date.now()\<close>, and the network calls and back-off sleeps made so far,
  oldest first.
\<close>

record world =
  items :: "string \<rightharpoonup> raw"
  getItem_throws :: bool
  setItem_throws :: bool
  clock :: int
  trace :: "event list"

record options =
  ttlMs :: int
  timeoutMs :: int
  maxRetries :: int
  parse :: string

definition DEFAULT_TIMEOUT_MS :: int where
  "DEFAULT_TIMEOUT_MS = 10000"

definition DEFAULT_MAX_RETRIES :: int where
  "DEFAULT_MAX_RETRIES = 2"

definition CACHE_PREFIX :: string where
  "CACHE_PREFIX = ''dashboard_cache_''"

text \<open>The defaults of the destructured \<^verbatim>\<open>options\<close> parameter.\<close>

definition default_options :: options where
  "default_options =
     \<lparr>ttlMs = 300000, timeoutMs = DEFAULT_TIMEOUT_MS,
      maxRetries = DEFAULT_MAX_RETRIES, parse = ''json''\<rparr>"

record FetchResult =
  data :: jsval
  error :: "string option"
  stale :: bool

text \<open>
  How a call of \<^verbatim>\<open>apiFetch\<close> ends: its promise is fulfilled with a result, it
  is rejected with an exception, or it never settles. Each comes with the
  world as the call leaves it.
\<close>

datatype outcome =
    Returned FetchResult world
  | Threw exn world
  | Hangs world

subsection \<open>Doubles\<close>

text \<open>
  The value of an arithmetic expression on non-negative integers: a finite
  double, which is an integer here, or \<^verbatim>\<open>Infinity\<close>.
\<close>

datatype double = Finite int | Infinity

fun bit_length :: "nat \<Rightarrow> nat" where
  "bit_length n = (if n = 0 then 0 else Suc (bit_length (n div 2)))"

declare bit_length.simps [simp del]

text \<open>
  The double nearest to a non-negative integer, ties to the even significand:
  integers below \<open>2 ^ 53\<close> are doubles; a longer one keeps its leading 53 bits,
  rounded; a result of \<open>2 ^ 1024\<close> or more is \<^verbatim>\<open>Infinity\<close>.
\<close>

definition to_double :: "nat \<Rightarrow> double" where
  "to_double n =
     (if n < 2 ^ 53 then Finite (int n)
      else let shift = bit_length n - 53;
               q = n div 2 ^ shift;
               r = n mod 2 ^ shift;
               half = 2 ^ (shift - 1);
               m = (if half < r \<or> (r = half \<and> odd q) then q + 1 else q)
           in if 2 ^ 1024 \<le> m * 2 ^ shift then Infinity else Finite (int (m * 2 ^ shift)))"

text \<open>The product \<^verbatim>\<open>x * k\<close> of a double that is a non-negative integer.\<close>

definition times :: "double \<Rightarrow> nat \<Rightarrow> double" where
  "times x k = (case x of Finite v \<Rightarrow> to_double (nat v * k) | Infinity \<Rightarrow> Infinity)"

subsection \<open>readCache and writeCache\<close>

text \<open>
  \<^verbatim>\<open>try { ... } catch { ... }\<close> on a computation that returns a value (\<open>Inr\<close>)
  or throws (\<open>Inl\<close>).
\<close>

definition try_catch :: "exn + 'a \<Rightarrow> (exn \<Rightarrow> exn + 'a) \<Rightarrow> exn + 'a" where
  "try_catch body handler = (case body of Inl e \<Rightarrow> handler e | Inr v \<Rightarrow> Inr v)"

text \<open>The operations of the platform that the two functions call.\<close>

definition getItem :: "world \<Rightarrow> string \<Rightarrow> exn + raw option" where
  "getItem w k =
     (if getItem_throws w then Inl (Exn ''SecurityError'' ''The operation is insecure.'')
      else Inr (items w k))"

definition setItem :: "world \<Rightarrow> string \<Rightarrow> raw \<Rightarrow> exn + world" where
  "setItem w k v =
     (if setItem_throws w then Inl (Exn ''QuotaExceededError'' ''The quota has been exceeded.'')
      else Inr (w\<lparr>items := (items w)(k \<mapsto> v)\<rparr>))"

definition JSON_parse :: "raw \<Rightarrow> exn + parsed" where
  "JSON_parse s =
     (case s of
        Text v \<Rightarrow> Inr v
      | _ \<Rightarrow> Inl (Exn ''SyntaxError'' ''Unexpected end of JSON input''))"

text \<open>
  \<^verbatim>\<open>readCache\<close>: the result is \<^verbatim>\<open>null\<close> (\<open>None\<close>) or the parsed value. A missing
  item and an empty text give \<^verbatim>\<open>null\<close> through \<^verbatim>\<open>if (!raw)\<close>; the \<^verbatim>\<open>catch\<close>
  block gives \<^verbatim>\<open>null\<close> for every exception of the body.
\<close>

definition readCache :: "world \<Rightarrow> string \<Rightarrow> exn + parsed option" where
  "readCache w key =
     try_catch
       (case getItem w (CACHE_PREFIX @ key) of
          Inl e \<Rightarrow> Inl e
        | Inr None \<Rightarrow> Inr None
        | Inr (Some s) \<Rightarrow>
            if s = Empty then Inr None
            else (case JSON_parse s of Inl e \<Rightarrow> Inl e | Inr v \<Rightarrow> Inr (Some v)))
       (\<lambda>e. Inr None)"

text \<open>
  \<^verbatim>\<open>JSON.stringify\<close> writes a finite number as it is and \<^verbatim>\<open>null\<close> for an
  infinite one.
\<close>

definition stringify_number :: "double \<Rightarrow> field" where
  "stringify_number x = (case x of Finite v \<Rightarrow> Number v | Infinity \<Rightarrow> Null)"

text \<open>
  \<^verbatim>\<open>writeCache\<close> stores \<^verbatim>\<open>JSON.stringify({ data, cachedAt: Date.now(), ttl })\<close>;
  an \<^verbatim>\<open>undefined\<close> payload is left out by \<^verbatim>\<open>JSON.stringify\<close> and reads back as
  \<^verbatim>\<open>undefined\<close>. The \<^verbatim>\<open>catch\<close> block drops the exception of \<^verbatim>\<open>setItem\<close>.
\<close>

definition writeCache :: "string \<Rightarrow> jsval \<Rightarrow> double \<Rightarrow> world \<Rightarrow> exn + world" where
  "writeCache key d ttl_ms w =
     try_catch
       (setItem w (CACHE_PREFIX @ key)
          (Text (Entry d (Number (clock w)) (stringify_number ttl_ms))))
       (\<lambda>e. Inr w)"

subsection \<open>parseCacheControlMaxAge\<close>

definition is_digit :: "char \<Rightarrow> bool" where
  "is_digit c = (c \<in> set ''0123456789'')"

definition digit_val :: "char \<Rightarrow> nat" where
  "digit_val c = of_char c - 48"

text \<open>The integer that a text of decimal digits denotes.\<close>

definition decimal :: "string \<Rightarrow> nat" where
  "decimal ds = foldl (\<lambda>n c. 10 * n + digit_val c) 0 ds"

fun after_prefix :: "string \<Rightarrow> string \<Rightarrow> string option" where
  "after_prefix [] s = Some s"
| "after_prefix (p # ps) [] = None"
| "after_prefix (p # ps) (c # cs) = (if p = c then after_prefix ps cs else None)"

text \<open>
  The regular expression \<^verbatim>\<open>/max-age=(\d+)/\<close> tried at the start of \<open>s\<close>: the
  literal text, then the longest run of at least one digit, which is the
  captured group.
\<close>

definition match_here :: "string \<Rightarrow> string option" where
  "match_here s =
     (case after_prefix ''max-age='' s of
        None \<Rightarrow> None
      | Some r \<Rightarrow> (let ds = takeWhile is_digit r in if ds = [] then None else Some ds))"

text \<open>\<^verbatim>\<open>cc.match(...)\<close>: the leftmost position where the expression matches.\<close>

fun match_max_age :: "string \<Rightarrow> string option" where
  "match_max_age [] = None"
| "match_max_age (c # cs) =
     (case match_here (c # cs) of Some ds \<Rightarrow> Some ds | None \<Rightarrow> match_max_age cs)"

text \<open>
  \<^verbatim>\<open>parseInt(match[1], 10) * 1000\<close>: \<^verbatim>\<open>parseInt\<close> gives the double nearest to
  the integer that the digits denote, and the product is a double again. (The
  standard lets an implementation read digits after the twentieth as zeros;
  the model rounds the exact integer.)
\<close>

definition parseCacheControlMaxAge :: "response \<Rightarrow> double option" where
  "parseCacheControlMaxAge r =
     (let cc = (case cache_control r of None \<Rightarrow> [] | Some h \<Rightarrow> h)
      in case match_max_age cc of
           Some ds \<Rightarrow> Some (times (to_double (decimal ds)) 1000)
         | None \<Rightarrow> None)"

subsection \<open>One attempt\<close>

text \<open>
  The timer of \<^verbatim>\<open>setTimeout(() => controller.abort(), timeoutMs)\<close> against
  the network: an answer that arrives before the timer fires settles
  \<^verbatim>\<open>fetch\<close>; otherwise the abort rejects it with an \<^verbatim>\<open>AbortError\<close> (whose
  message differs between browsers and is not used).
\<close>

definition fetch :: "int \<Rightarrow> exchange \<Rightarrow> reply" where
  "fetch timeout_ms x =
     (if int (latency x) < timeout_ms then reply x
      else Rejects (Exn ''AbortError'' ''signal is aborted without reason''))"

definition elapsed :: "int \<Rightarrow> exchange \<Rightarrow> int" where
  "elapsed timeout_ms x =
     (if int (latency x) < timeout_ms then int (latency x) else max 0 timeout_ms)"

text \<open>
  \<^verbatim>\<open>sleep(ms)\<close>: the call resumes \<open>ms\<close> milliseconds later. A delay is taken
  as it is given; the 32-bit range of the timers of the platform is not
  represented, neither here nor in \<open>fetch\<close>.
\<close>

definition sleep :: "int \<Rightarrow> world \<Rightarrow> world" where
  "sleep ms w = w\<lparr>clock := clock w + ms, trace := trace w @ [Sleep ms]\<rparr>"

text \<open>The world after \<^verbatim>\<open>await fetch(url, ...)\<close> has settled.\<close>

definition after_fetch :: "string \<Rightarrow> int \<Rightarrow> exchange \<Rightarrow> world \<Rightarrow> world" where
  "after_fetch url timeout_ms x w =
     w\<lparr>clock := clock w + elapsed timeout_ms x, trace := trace w @ [Fetch url]\<rparr>"

fun digit_char :: "nat \<Rightarrow> char" where
  "digit_char n = ''0123456789'' ! (n mod 10)"

fun show_nat :: "nat \<Rightarrow> string" where
  "show_nat n = (if n < 10 then [digit_char n] else show_nat (n div 10) @ [digit_char n])"

declare show_nat.simps [simp del]

text \<open>
  The message of the \<^verbatim>\<open>catch\<close> block:
  \<^verbatim>\<open>err.name === 'AbortError' ? 'Request timed out' : err.message\<close>.
\<close>

definition errMsg :: "exn \<Rightarrow> string" where
  "errMsg err = (if name err = ''AbortError'' then ''Request timed out'' else message err)"

text \<open>
  The body read that the \<^verbatim>\<open>parse\<close> option selects. The timer has been cleared
  when the body is read, so a read that does not settle is not aborted.
\<close>

definition decode :: "string \<Rightarrow> response \<Rightarrow> jsval promise" where
  "decode p r =
     (if p = ''json'' then body_json r
      else if p = ''text'' \<or> p = ''csv'' then
        (case body_text r of
           Fulfilled s \<Rightarrow> Fulfilled (JStr s)
         | Rejected e \<Rightarrow> Rejected e
         | Pending \<Rightarrow> Pending)
      else Fulfilled JUndefined)"

text \<open>
  The \<^verbatim>\<open>try\<close> block of \<^verbatim>\<open>attempt\<close> up to the point where the attempt has
  either a payload or a failure message: \<open>Failed msg\<close> is a failure (a rejected
  or aborted \<^verbatim>\<open>fetch\<close>, a status outside 200..299, a body read that throws),
  \<open>Succeeded d r\<close> the decoded payload with its response, \<open>Stalled\<close> a body
  read that never settles.
\<close>

datatype tried = Failed string | Succeeded jsval response | Stalled

definition try_fetch :: "options \<Rightarrow> exchange \<Rightarrow> tried" where
  "try_fetch opts x =
     (case fetch (timeoutMs opts) x of
        Rejects err \<Rightarrow> Failed (errMsg err)
      | Responds r \<Rightarrow>
          if \<not> ok r then Failed (''HTTP '' @ show_nat (status r) @ '' '' @ statusText r)
          else (case decode (parse opts) r of
                  Rejected err \<Rightarrow> Failed (errMsg err)
                | Fulfilled d \<Rightarrow> Succeeded d r
                | Pending \<Rightarrow> Stalled))"

text \<open>
  The wait before the next attempt:
  \<^verbatim>\<open>if (remaining > 0) await sleep(500 * 2 ** (maxRetries - remaining))\<close>.
\<close>

definition backoff :: "options \<Rightarrow> int \<Rightarrow> world \<Rightarrow> world" where
  "backoff opts remaining w =
     (if remaining > 0 then sleep (500 * 2 ^ nat (maxRetries opts - remaining)) w else w)"

subsection \<open>attempt and apiFetch\<close>

text \<open>
  What the source asks of the value \<^verbatim>\<open>readCache\<close> returned: \<^verbatim>\<open>if (cached)\<close>
  and \<^verbatim>\<open>cached.data\<close>.
\<close>

definition truthy :: "parsed option \<Rightarrow> bool" where
  "truthy cached = (case cached of Some (Entry d c t) \<Rightarrow> True | _ \<Rightarrow> False)"

definition data_of :: "parsed option \<Rightarrow> jsval" where
  "data_of cached = (case cached of Some (Entry d c t) \<Rightarrow> d | _ \<Rightarrow> JUndefined)"

text \<open>
  \<^verbatim>\<open>attempt(remaining, lastError)\<close>, with the variables it closes over as
  parameters. The exchange of the attempt is the one the network holds for
  attempt number \<^verbatim>\<open>maxRetries - remaining\<close>. Both failure paths of the source
  (the status check and the \<^verbatim>\<open>catch\<close> block) sleep and recurse in the same way
  and are one branch here. \<^verbatim>\<open>writeCache\<close> is called inside the \<^verbatim>\<open>try\<close> block:
  if it threw, the \<^verbatim>\<open>catch\<close> block would take its exception as the failure of
  the attempt.
\<close>

function attempt ::
  "string \<Rightarrow> options \<Rightarrow> (nat \<Rightarrow> exchange) \<Rightarrow> parsed option \<Rightarrow> int \<Rightarrow> string option
     \<Rightarrow> world \<Rightarrow> outcome" where
  "attempt url opts net cached remaining lastError w =
     (if remaining < 0 then
        (if truthy cached
         then Returned \<lparr>data = data_of cached, error = lastError, stale = True\<rparr> w
         else Returned \<lparr>data = JNull, error = lastError, stale = False\<rparr> w)
      else
        let x = net (nat (maxRetries opts - remaining));
            w1 = after_fetch url (timeoutMs opts) x w
        in case try_fetch opts x of
             Failed err \<Rightarrow>
               attempt url opts net cached (remaining - 1) (Some err) (backoff opts remaining w1)
           | Stalled \<Rightarrow> Hangs w1
           | Succeeded d r \<Rightarrow>
               (case writeCache url d
                       (case parseCacheControlMaxAge r of
                          Some t \<Rightarrow> t
                        | None \<Rightarrow> Finite (ttlMs opts)) w1 of
                  Inr w2 \<Rightarrow> Returned \<lparr>data = d, error = None, stale = False\<rparr> w2
                | Inl err \<Rightarrow>
                    attempt url opts net cached (remaining - 1) (Some (errMsg err))
                      (backoff opts remaining w1)))"
  by pat_completeness auto
termination
  by (relation "measure (\<lambda>(url, opts, net, cached, remaining, lastError, w). nat (remaining + 1))")
     auto

declare attempt.simps [simp del]

text \<open>The conversion to a number that \<^verbatim>\<open>-\<close> and \<^verbatim>\<open><\<close> apply; \<open>None\<close> is NaN.\<close>

definition to_number :: "field \<Rightarrow> exn + int option" where
  "to_number f =
     (case f of
        Number n \<Rightarrow> Inr (Some n)
      | Null \<Rightarrow> Inr (Some 0)
      | NotANumber \<Rightarrow> Inr None
      | Unconvertible \<Rightarrow> Inl (Exn ''TypeError'' ''Cannot convert object to primitive value''))"

text \<open>
  The freshness test of the fast path:
  \<^verbatim>\<open>cached && Date.now() - cached.cachedAt < cached.ttl\<close>. Both properties are
  converted, \<^verbatim>\<open>cachedAt\<close> first; a comparison with NaN is false.
\<close>

definition fresh :: "int \<Rightarrow> parsed option \<Rightarrow> exn + bool" where
  "fresh now cached =
     (case cached of
        Some (Entry d c t) \<Rightarrow>
          (case to_number c of
             Inl e \<Rightarrow> Inl e
           | Inr a \<Rightarrow>
               (case to_number t of
                  Inl e \<Rightarrow> Inl e
                | Inr b \<Rightarrow>
                    Inr (case a of
                           None \<Rightarrow> False
                         | Some x \<Rightarrow> (case b of None \<Rightarrow> False | Some y \<Rightarrow> now - x < y))))
      | _ \<Rightarrow> Inr False)"

text \<open>
  \<^verbatim>\<open>apiFetch\<close>. The read of the cache and the freshness test stand outside
  every \<^verbatim>\<open>try\<close>: an exception of either rejects the promise of the call.
\<close>

definition apiFetch :: "string \<Rightarrow> options \<Rightarrow> (nat \<Rightarrow> exchange) \<Rightarrow> world \<Rightarrow> outcome" where
  "apiFetch url opts net w =
     (let cacheKey = url
      in case readCache w cacheKey of
           Inl e \<Rightarrow> Threw e w
         | Inr cached \<Rightarrow>
             (case fresh (clock w) cached of
                Inl e \<Rightarrow> Threw e w
              | Inr hit \<Rightarrow>
                  if hit then Returned \<lparr>data = data_of cached, error = None, stale = False\<rparr> w
                  else attempt url opts net cached (maxRetries opts) None w))"

subsection \<open>Notions used in the statements\<close>

text \<open>The result of a call that returns, and the world a call leaves.\<close>

definition result_of :: "outcome \<Rightarrow> FetchResult option" where
  "result_of out = (case out of Returned r w \<Rightarrow> Some r | _ \<Rightarrow> None)"

definition world_of :: "outcome \<Rightarrow> world" where
  "world_of out = (case out of Returned r w \<Rightarrow> w | Threw e w \<Rightarrow> w | Hangs w \<Rightarrow> w)"

text \<open>
  The failure message of an exchange under the given options, \<open>None\<close> when the
  attempt does not fail.
\<close>

definition failure :: "options \<Rightarrow> exchange \<Rightarrow> string option" where
  "failure opts x = (case try_fetch opts x of Failed msg \<Rightarrow> Some msg | _ \<Rightarrow> None)"

text \<open>
  The world after \<open>k\<close> failed attempts in a row, the first of them made with
  \<open>remaining\<close> retries left: each leaves its network call and its back-off
  sleep behind.
\<close>

fun fail_steps ::
  "string \<Rightarrow> options \<Rightarrow> (nat \<Rightarrow> exchange) \<Rightarrow> nat \<Rightarrow> int \<Rightarrow> world \<Rightarrow> world" where
  "fail_steps url opts net 0 remaining w = w"
| "fail_steps url opts net (Suc k) remaining w =
     fail_steps url opts net k (remaining - 1)
       (backoff opts remaining
          (after_fetch url (timeoutMs opts) (net (nat (maxRetries opts - remaining))) w))"

text \<open>The world that \<^verbatim>\<open>writeCache\<close> leaves, whether or not the storage takes the write.\<close>

definition after_write :: "string \<Rightarrow> jsval \<Rightarrow> double \<Rightarrow> world \<Rightarrow> world" where
  "after_write key d ttl_ms w =
     (if setItem_throws w then w
      else w\<lparr>items := (items w)(CACHE_PREFIX @ key \<mapsto>
                 Text (Entry d (Number (clock w)) (stringify_number ttl_ms)))\<rparr>)"

text \<open>\<^verbatim>\<open>serverTtl ?? ttlMs\<close>.\<close>

definition effective_ttl :: "options \<Rightarrow> response \<Rightarrow> double" where
  "effective_ttl opts r =
     (case parseCacheControlMaxAge r of Some t \<Rightarrow> t | None \<Rightarrow> Finite (ttlMs opts))"

text \<open>The result of the branch \<^verbatim>\<open>remaining < 0\<close> of \<^verbatim>\<open>attempt\<close>.\<close>

definition fallback :: "parsed option \<Rightarrow> string option \<Rightarrow> FetchResult" where
  "fallback cached lastError =
     (if truthy cached
      then \<lparr>data = data_of cached, error = lastError, stale = True\<rparr>
      else \<lparr>data = JNull, error = lastError, stale = False\<rparr>)"

text \<open>A \<^verbatim>\<open>data\<close> field that carries nothing: \<^verbatim>\<open>null\<close> or \<^verbatim>\<open>undefined\<close>.\<close>

definition absent :: "jsval \<Rightarrow> bool" where
  "absent d = (d = JNull \<or> d = JUndefined)"

text \<open>
  A header text carries a directive \<^verbatim>\<open>max-age=<seconds>\<close> at its start: the
  eight characters \<^verbatim>\<open>max-age=\<close> and then a decimal digit.
\<close>

definition starts_directive :: "string \<Rightarrow> bool" where
  "starts_directive s =
     (take 8 s = ''max-age='' \<and> (case drop 8 s of [] \<Rightarrow> False | c # cs \<Rightarrow> is_digit c))"

section \<open>The FIRMS proxy (functions/api/firms.js)\<close>

definition FIRMS_BASE :: string where
  "FIRMS_BASE = ''https://firms.modaps.eosdis.nasa.gov/api/area/csv''"

definition DEFAULT_SOURCE :: string where
  "DEFAULT_SOURCE = ''VIIRS_SNPP_NRT''"

definition DEFAULT_DAYS :: string where
  "DEFAULT_DAYS = ''1''"

subsection \<open>parseCsv\<close>

text \<open>
  White space and line terminators of JavaScript among the characters of
  \<open>string\<close>: tab, line feed, vertical tab, form feed, carriage return, space
  and no-break space.
\<close>

definition is_space :: "char \<Rightarrow> bool" where
  "is_space c = (c \<in> {CHR 0x09, CHR 0x0A, CHR 0x0B, CHR 0x0C, CHR 0x0D, CHR 0x20, CHR 0xA0})"

definition trim :: "string \<Rightarrow> string" where
  "trim s = rev (dropWhile is_space (rev (dropWhile is_space s)))"

text \<open>\<^verbatim>\<open>s.split(sep)\<close> for a separator of one character.\<close>

fun split :: "char \<Rightarrow> string \<Rightarrow> string list" where
  "split sep [] = [[]]"
| "split sep (c # cs) =
     (if c = sep then [] # split sep cs
      else (case split sep cs of
              [] \<Rightarrow> [[c]]
            | x # xs \<Rightarrow> (c # x) # xs))"

text \<open>
  \<^verbatim>\<open>Object.fromEntries\<close>: the object that has each key of the entries as a
  property, with the value of the last entry for that key. An object is the
  map from its property names to their values.
\<close>

definition fromEntries :: "(string \<times> string) list \<Rightarrow> (string \<rightharpoonup> string)" where
  "fromEntries entries = map_of (rev entries)"

text \<open>
  \<^verbatim>\<open>parseCsv\<close>: one object per line after the first, with one entry per header
  in header order, and \<^verbatim>\<open>''\<close> where the line has no such column.
\<close>

definition parseCsv :: "string \<Rightarrow> (string \<rightharpoonup> string) list" where
  "parseCsv csv =
     (case split (CHR 0x0A) (trim csv) of
        header # line1 # lines \<Rightarrow>
          (let headers = map trim (split (CHR '','') header)
           in map (\<lambda>line.
                     let values = split (CHR '','') line
                     in fromEntries
                          (map (\<lambda>(h, i). (h, if i < length values then trim (values ! i) else []))
                             (zip headers [0..<length headers])))
                (line1 # lines))
      | _ \<Rightarrow> [])"

subsection \<open>onRequestGet\<close>

text \<open>\<^verbatim>\<open>v || d\<close> on what \<^verbatim>\<open>searchParams.get\<close> returns: \<^verbatim>\<open>null\<close> and \<^verbatim>\<open>''\<close> are falsy.\<close>

definition or_default :: "string option \<Rightarrow> string \<Rightarrow> string" where
  "or_default v d = (case v of None \<Rightarrow> d | Some s \<Rightarrow> if s = [] then d else s)"

text \<open>
  \<^verbatim>\<open>parseInt(s, 10)\<close>: leading white space is skipped, one sign is read, then
  the longest run of decimal digits; \<open>None\<close> is NaN, when there is no digit.
\<close>

definition parseInt :: "string \<Rightarrow> int option" where
  "parseInt s =
     (let t = dropWhile is_space s;
          negative = (case t of [] \<Rightarrow> False | c # r \<Rightarrow> c = CHR ''-'');
          u = (case t of [] \<Rightarrow> [] | c # r \<Rightarrow> if c = CHR ''-'' \<or> c = CHR ''+'' then r else t);
          ds = takeWhile is_digit u
      in if ds = [] then None
         else Some (if negative then - int (decimal ds) else int (decimal ds)))"

text \<open>
  \<^verbatim>\<open>Math.min(10, Math.max(1, parseInt(days, 10) || 1))\<close> with
  \<^verbatim>\<open>days = url.searchParams.get('days') || DEFAULT_DAYS\<close>; NaN and 0 are falsy.
\<close>

definition daysInt :: "(string \<rightharpoonup> string) \<Rightarrow> int" where
  "daysInt searchParams =
     (let days = or_default (searchParams ''days'') DEFAULT_DAYS
      in min 10 (max 1 (case parseInt days of
                          None \<Rightarrow> 1
                        | Some n \<Rightarrow> if n = 0 then 1 else n)))"

definition firmsUrl :: "string \<Rightarrow> (string \<rightharpoonup> string) \<Rightarrow> string" where
  "firmsUrl apiKey searchParams =
     (let source = or_default (searchParams ''source'') DEFAULT_SOURCE;
          bbox = or_default (searchParams ''bbox'') ''world''
      in FIRMS_BASE @ ''/'' @ apiKey @ ''/'' @ source @ ''/'' @ bbox @ ''/''
           @ show_nat (nat (daysInt searchParams)))"

text \<open>
  The proxy's answer: the status and the value whose JSON text is the body,
  \<open>ErrorBody msg\<close> for \<^verbatim>\<open>{ error: msg }\<close> and \<open>Rows rs\<close> for the array of
  objects that \<^verbatim>\<open>parseCsv\<close> returns. The headers are left out.
\<close>

datatype body = ErrorBody string | Rows "(string \<rightharpoonup> string) list"

datatype answer = Response (answer_status: nat) (answer_body: body)

text \<open>
  \<^verbatim>\<open>new Response(body, { status })\<close> with a body that is not \<^verbatim>\<open>null\<close>: the
  constructor throws a \<^verbatim>\<open>RangeError\<close> for a status outside 200..599 and a
  \<^verbatim>\<open>TypeError\<close> for a status that allows no body (204, 205 and 304 in that
  range). The wording of the messages differs between runtimes.
\<close>

definition new_Response :: "body \<Rightarrow> nat \<Rightarrow> exn + answer" where
  "new_Response b s =
     (if s < 200 \<or> 599 < s then
        Inl (Exn ''RangeError'' ''The status provided is outside the range [200, 599].'')
      else if s = 204 \<or> s = 205 \<or> s = 304 then
        Inl (Exn ''TypeError'' ''Response with null body status cannot have body'')
      else Inr (Response s b))"

text \<open>
  \<^verbatim>\<open>onRequestGet({ request, env })\<close>: \<open>apiKey\<close> is \<^verbatim>\<open>env.FIRMS_API_KEY\<close>
  (\<open>None\<close> when it is not set), \<open>searchParams\<close> the query of the request, and
  \<open>upstream_fetch\<close> what becomes of \<^verbatim>\<open>fetch\<close> for a URL; no timer bounds it. The
  result is the answer, or \<open>None\<close> when the handler never answers. The fixed
  statuses 503, 200 and 500 are ones the constructor accepts; the status
  relayed from the upstream goes through the constructor inside the \<^verbatim>\<open>try\<close>
  block, whose \<^verbatim>\<open>catch\<close> answers 500.
\<close>

definition onRequestGet ::
  "string option \<Rightarrow> (string \<rightharpoonup> string) \<Rightarrow> (string \<Rightarrow> response promise) \<Rightarrow> answer option" where
  "onRequestGet apiKey searchParams upstream_fetch =
     (case apiKey of
        None \<Rightarrow>
          Some (Response 503 (ErrorBody ''FIRMS_API_KEY environment variable is not configured.''))
      | Some key \<Rightarrow>
          if key = [] then
            Some (Response 503 (ErrorBody ''FIRMS_API_KEY environment variable is not configured.''))
          else
            (case upstream_fetch (firmsUrl key searchParams) of
               Pending \<Rightarrow> None
             | Rejected err \<Rightarrow> Some (Response 500 (ErrorBody (''Proxy error: '' @ message err)))
             | Fulfilled upstream \<Rightarrow>
                 if \<not> ok upstream then
                   (case new_Response
                           (ErrorBody (''FIRMS upstream error: HTTP '' @ show_nat (status upstream)))
                           (status upstream) of
                      Inr a \<Rightarrow> Some a
                    | Inl err \<Rightarrow> Some (Response 500 (ErrorBody (''Proxy error: '' @ message err))))
                 else
                   (case body_text upstream of
                      Pending \<Rightarrow> None
                    | Rejected err \<Rightarrow>
                        Some (Response 500 (ErrorBody (''Proxy error: '' @ message err)))
                    | Fulfilled csv \<Rightarrow> Some (Response 200 (Rows (parseCsv csv))))))"

section \<open>Scenarios\<close>

text \<open>Concrete worlds, exchanges and responses on which the theorems are run.\<close>

definition no_cache :: world where
  "no_cache =
     \<lparr>items = Map.empty, getItem_throws = False, setItem_throws = False,
      clock = 0, trace = []\<rparr>"

text \<open>An entry for \<^verbatim>\<open>"A"\<close> written at time 0 with a TTL of 5000 ms, read at time 2000.\<close>

definition fresh_cache :: world where
  "fresh_cache =
     \<lparr>items = [CACHE_PREFIX @ ''A'' \<mapsto>
                Text (Entry (JObj [(''x'', JNum 1)]) (Number 0) (Number 5000))],
      getItem_throws = False, setItem_throws = False, clock = 2000, trace = []\<rparr>"

text \<open>An entry for \<^verbatim>\<open>"B"\<close> written at time 0 with a TTL of 5000 ms, read at time 60000.\<close>

definition stale_cache :: world where
  "stale_cache =
     \<lparr>items = [CACHE_PREFIX @ ''B'' \<mapsto>
                Text (Entry (JObj [(''y'', JNum 2)]) (Number 0) (Number 5000))],
      getItem_throws = False, setItem_throws = False, clock = 60000, trace = []\<rparr>"

text \<open>
  A record for \<^verbatim>\<open>"E"\<close> that parses, \<^verbatim>\<open>{"cachedAt": {"toString": 1}}\<close>: it has
  no \<^verbatim>\<open>data\<close> and no \<^verbatim>\<open>ttl\<close>, and its \<^verbatim>\<open>cachedAt\<close> has no primitive value.
\<close>

definition odd_record :: world where
  "odd_record =
     \<lparr>items = [CACHE_PREFIX @ ''E'' \<mapsto> Text (Entry JUndefined Unconvertible NotANumber)],
      getItem_throws = False, setItem_throws = False, clock = 0, trace = []\<rparr>"

text \<open>A server that answers after the default timeout of 10 s has passed.\<close>

definition times_out :: exchange where
  "times_out = \<lparr>latency = 10000, reply = Rejects (Exn ''TypeError'' ''Failed to fetch'')\<rparr>"

text \<open>A server that answers in 120 ms with a JSON body and \<^verbatim>\<open>Cache-Control: max-age=900\<close>.\<close>

definition answers :: exchange where
  "answers =
     \<lparr>latency = 120,
      reply = Responds
        \<lparr>status = 200, statusText = ''OK'', cache_control = Some ''max-age=900'',
         body_json = Fulfilled (JObj [(''x'', JNum 1)]), body_text = Fulfilled ''{\"x\":1}''\<rparr>\<rparr>"

text \<open>The same with a \<^verbatim>\<open>max-age\<close> of \<open>2 ^ 53 + 1\<close> seconds.\<close>

definition answers_forever :: exchange where
  "answers_forever =
     \<lparr>latency = 120,
      reply = Responds
        \<lparr>status = 200, statusText = ''OK'',
         cache_control = Some ''max-age=9007199254740993'',
         body_json = Fulfilled (JObj [(''x'', JNum 1)]), body_text = Fulfilled ''{\"x\":1}''\<rparr>\<rparr>"

text \<open>A server that answers 200 with a body that is cut off: \<^verbatim>\<open>response.json()\<close> throws.\<close>

definition garbled :: exchange where
  "garbled =
     \<lparr>latency = 120,
      reply = Responds
        \<lparr>status = 200, statusText = ''OK'', cache_control = None,
         body_json = Rejected (Exn ''SyntaxError'' ''Unexpected end of JSON input''),
         body_text = Fulfilled ''{''\<rparr>\<rparr>"

text \<open>A server that sends the head of a 200 response and then nothing more.\<close>

definition stalls :: exchange where
  "stalls =
     \<lparr>latency = 120,
      reply = Responds
        \<lparr>status = 200, statusText = ''OK'', cache_control = None,
         body_json = Pending, body_text = Pending\<rparr>\<rparr>"

text \<open>A server that answers 200 with the JSON text \<^verbatim>\<open>null\<close>.\<close>

definition null_body :: exchange where
  "null_body =
     \<lparr>latency = 120,
      reply = Responds
        \<lparr>status = 200, statusText = ''OK'', cache_control = None,
         body_json = Fulfilled JNull, body_text = Fulfilled ''null''\<rparr>\<rparr>"

text \<open>A network that refuses the connection, and a server that answers 503.\<close>

definition refused :: exchange where
  "refused = \<lparr>latency = 30, reply = Rejects (Exn ''TypeError'' ''Failed to fetch'')\<rparr>"

definition unavailable :: exchange where
  "unavailable =
     \<lparr>latency = 120,
      reply = Responds
        \<lparr>status = 503, statusText = ''Service Unavailable'', cache_control = None,
         body_json = Rejected (Exn ''SyntaxError'' ''Unexpected end of JSON input''),
         body_text = Fulfilled []\<rparr>\<rparr>"

text \<open>
  A storage that throws on every access and whose record for \<^verbatim>\<open>"A"\<close> is not
  JSON.
\<close>

definition broken_storage :: world where
  "broken_storage =
     \<lparr>items = [CACHE_PREFIX @ ''A'' \<mapsto> Unparseable],
      getItem_throws = True, setItem_throws = True, clock = 0, trace = []\<rparr>"

text \<open>
  An upstream that serves two lines of CSV for three days of the whole world
  under the key \<^verbatim>\<open>KEY\<close>, answers 304 under the key \<^verbatim>\<open>SAME\<close> and 999 under the
  key \<^verbatim>\<open>ODD\<close>, and answers 403 to everything else.
\<close>

definition plain_response :: "nat \<Rightarrow> string \<Rightarrow> string \<Rightarrow> response" where
  "plain_response s reason content =
     \<lparr>status = s, statusText = reason, cache_control = None,
      body_json = Rejected (Exn ''SyntaxError'' ''Unexpected token in JSON at position 0''),
      body_text = Fulfilled content\<rparr>"

definition firms_upstream :: "string \<Rightarrow> response promise" where
  "firms_upstream u =
     (if u = ''https://firms.modaps.eosdis.nasa.gov/api/area/csv/KEY/VIIRS_SNPP_NRT/world/3''
      then Fulfilled (plain_response 200 ''OK''
             (''latitude, longitude'' @ [CHR 0x0A] @ ''10.5,20.1'' @ [CHR 0x0A]))
      else if u = ''https://firms.modaps.eosdis.nasa.gov/api/area/csv/SAME/VIIRS_SNPP_NRT/world/3''
      then Fulfilled (plain_response 304 ''Not Modified'' [])
      else if u = ''https://firms.modaps.eosdis.nasa.gov/api/area/csv/ODD/VIIRS_SNPP_NRT/world/3''
      then Fulfilled (plain_response 999 ''Request denied'' [])
      else Fulfilled (plain_response 403 ''Forbidden'' ''Invalid MAP_KEY.''))"

section \<open>Properties of the API client\<close>

subsection \<open>Unfolding the definitions\<close>

lemma readCache_returns:
  "readCache w key =
     Inr (if getItem_throws w then None
          else case items w (CACHE_PREFIX @ key) of
                 Some (Text v) \<Rightarrow> Some v
               | _ \<Rightarrow> None)"
  by (simp add: readCache_def try_catch_def getItem_def JSON_parse_def
      split: option.splits raw.splits)

lemma writeCache_returns: "writeCache key d ttl_ms w = Inr (after_write key d ttl_ms w)"
  by (simp add: writeCache_def try_catch_def setItem_def after_write_def)

lemma attempt_exhausted:
  "remaining < 0 \<Longrightarrow>
   attempt url opts net cached remaining lastError w = Returned (fallback cached lastError) w"
  by (simp add: attempt.simps fallback_def)

lemma attempt_failed:
  assumes "0 \<le> remaining"
    and "failure opts (net (nat (maxRetries opts - remaining))) = Some msg"
  shows "attempt url opts net cached remaining lastError w =
           attempt url opts net cached (remaining - 1) (Some msg)
             (backoff opts remaining
                (after_fetch url (timeoutMs opts) (net (nat (maxRetries opts - remaining))) w))"
proof -
  from assms(2) have "try_fetch opts (net (nat (maxRetries opts - remaining))) = Failed msg"
    by (simp add: failure_def split: tried.splits)
  with assms(1) show ?thesis
    by (subst attempt.simps) (simp add: Let_def)
qed

lemma attempt_succeeded:
  assumes "0 \<le> remaining"
    and "try_fetch opts (net (nat (maxRetries opts - remaining))) = Succeeded d r"
  shows "attempt url opts net cached remaining lastError w =
           Returned \<lparr>data = d, error = None, stale = False\<rparr>
             (after_write url d (effective_ttl opts r)
                (after_fetch url (timeoutMs opts) (net (nat (maxRetries opts - remaining))) w))"
  using assms
  by (subst attempt.simps) (simp add: Let_def writeCache_returns effective_ttl_def)

lemma attempt_stalled:
  assumes "0 \<le> remaining"
    and "try_fetch opts (net (nat (maxRetries opts - remaining))) = Stalled"
  shows "attempt url opts net cached remaining lastError w =
           Hangs (after_fetch url (timeoutMs opts) (net (nat (maxRetries opts - remaining))) w)"
  using assms by (subst attempt.simps) (simp add: Let_def)

lemma attempt_after_failures:
  assumes "int k \<le> remaining + 1"
    and "remaining \<le> maxRetries opts"
    and "\<forall>i<k. failure opts (net (nat (maxRetries opts - remaining) + i)) \<noteq> None"
  shows "attempt url opts net cached remaining lastError w =
           attempt url opts net cached (remaining - int k)
             (if k = 0 then lastError
              else failure opts (net (nat (maxRetries opts - remaining) + k - 1)))
             (fail_steps url opts net k remaining w)"
  using assms
proof (induction k arbitrary: remaining lastError w)
  case 0
  then show ?case by simp
next
  case (Suc k)
  let ?j = "nat (maxRetries opts - remaining)"
  from Suc.prems(1) have rem: "0 \<le> remaining" by simp
  from Suc.prems(3) obtain msg where msg: "failure opts (net ?j) = Some msg"
    by (metis add.right_neutral not_Some_eq zero_less_Suc)
  have idx: "nat (maxRetries opts - (remaining - 1)) = Suc ?j"
    using Suc.prems(2) by simp
  have fails: "\<forall>i<k. failure opts (net (nat (maxRetries opts - (remaining - 1)) + i)) \<noteq> None"
    using Suc.prems(3) by (simp add: idx) (metis Suc_less_eq add_Suc_right)
  have step: "attempt url opts net cached remaining lastError w =
                attempt url opts net cached (remaining - 1) (Some msg)
                  (backoff opts remaining (after_fetch url (timeoutMs opts) (net ?j) w))"
    using rem msg by (rule attempt_failed)
  have "attempt url opts net cached (remaining - 1) (Some msg)
          (backoff opts remaining (after_fetch url (timeoutMs opts) (net ?j) w)) =
        attempt url opts net cached (remaining - 1 - int k)
          (if k = 0 then Some msg
           else failure opts (net (nat (maxRetries opts - (remaining - 1)) + k - 1)))
          (fail_steps url opts net k (remaining - 1)
             (backoff opts remaining (after_fetch url (timeoutMs opts) (net ?j) w)))"
    using Suc.prems(1,2) fails by (intro Suc.IH) simp_all
  also have "(if k = 0 then Some msg
              else failure opts (net (nat (maxRetries opts - (remaining - 1)) + k - 1))) =
             failure opts (net (?j + Suc k - 1))"
    by (simp add: idx msg)
  finally show ?case
    by (simp add: step algebra_simps)
qed

lemma fail_steps_items [simp]: "items (fail_steps url opts net k remaining w) = items w"
  by (induction k arbitrary: remaining w) (simp_all add: backoff_def sleep_def after_fetch_def)

lemma fail_steps_setItem [simp]:
  "setItem_throws (fail_steps url opts net k remaining w) = setItem_throws w"
  by (induction k arbitrary: remaining w) (simp_all add: backoff_def sleep_def after_fetch_def)

lemma fail_steps_trace:
  assumes "int k \<le> remaining" and "remaining \<le> maxRetries opts"
  shows "trace (fail_steps url opts net k remaining w) =
           trace w @ concat (map (\<lambda>i. [Fetch url, Sleep (500 * 2 ^ i)])
                              [nat (maxRetries opts - remaining) ..< nat (maxRetries opts - remaining) + k])"
  using assms
proof (induction k arbitrary: remaining w)
  case 0
  then show ?case by simp
next
  case (Suc k)
  let ?j = "nat (maxRetries opts - remaining)"
  have idx: "nat (maxRetries opts - (remaining - 1)) = Suc ?j"
    using Suc.prems(2) by simp
  have "trace (fail_steps url opts net k (remaining - 1)
           (backoff opts remaining (after_fetch url (timeoutMs opts) (net ?j) w))) =
        trace (backoff opts remaining (after_fetch url (timeoutMs opts) (net ?j) w)) @
          concat (map (\<lambda>i. [Fetch url, Sleep (500 * 2 ^ i)]) [Suc ?j ..< Suc ?j + k])"
    using Suc.prems by (subst Suc.IH) (simp_all add: idx)
  moreover have "trace (backoff opts remaining (after_fetch url (timeoutMs opts) (net ?j) w)) =
                 trace w @ [Fetch url, Sleep (500 * 2 ^ ?j)]"
    using Suc.prems(1) by (simp add: backoff_def sleep_def after_fetch_def)
  moreover have "[?j ..< ?j + Suc k] = ?j # [Suc ?j ..< Suc ?j + k]"
    by (simp add: upt_conv_Cons)
  ultimately show ?case by simp
qed

lemma fail_steps_getItem [simp]:
  "getItem_throws (fail_steps url opts net k remaining w) = getItem_throws w"
  by (induction k arbitrary: remaining w) (simp_all add: backoff_def sleep_def after_fetch_def)

text \<open>All of the \<open>maxRetries + 1\<close> attempts fail: the call ends in the fallback.\<close>

lemma attempt_all_failed:
  assumes "0 \<le> maxRetries opts"
    and "\<forall>i. int i \<le> maxRetries opts \<longrightarrow> failure opts (net i) \<noteq> None"
  shows "attempt url opts net cached (maxRetries opts) None w =
           attempt url opts net cached (- 1) (failure opts (net (nat (maxRetries opts))))
             (fail_steps url opts net (Suc (nat (maxRetries opts))) (maxRetries opts) w)"
proof -
  have "attempt url opts net cached (maxRetries opts) None w =
          attempt url opts net cached (maxRetries opts - int (Suc (nat (maxRetries opts))))
            (if Suc (nat (maxRetries opts)) = 0 then None
             else failure opts (net (nat (maxRetries opts - maxRetries opts)
                                      + Suc (nat (maxRetries opts)) - 1)))
            (fail_steps url opts net (Suc (nat (maxRetries opts))) (maxRetries opts) w)"
    using assms by (intro attempt_after_failures) auto
  then show ?thesis using assms(1) by simp
qed

lemma fail_steps_add:
  "fail_steps url opts net (k + j) remaining w =
     fail_steps url opts net j (remaining - int k) (fail_steps url opts net k remaining w)"
proof (induction k arbitrary: remaining w)
  case 0
  then show ?case by simp
next
  case (Suc k)
  have "remaining - 1 - int k = remaining - int (Suc k)" by simp
  with Suc.IH [of "remaining - 1"] show ?case by simp
qed

lemma fail_steps_exhausted_trace:
  assumes "0 \<le> maxRetries opts"
  shows "trace (fail_steps url opts net (Suc (nat (maxRetries opts))) (maxRetries opts) w) =
           trace w @ concat (map (\<lambda>i. [Fetch url, Sleep (500 * 2 ^ i)]) [0..<nat (maxRetries opts)])
             @ [Fetch url]"
proof -
  let ?M = "maxRetries opts"
  let ?w = "fail_steps url opts net (nat ?M) ?M w"
  have "fail_steps url opts net (nat ?M + 1) ?M w = fail_steps url opts net 1 (?M - int (nat ?M)) ?w"
    by (rule fail_steps_add)
  also have "\<dots> = after_fetch url (timeoutMs opts) (net (nat ?M)) ?w"
    using assms by (simp add: backoff_def)
  finally have "trace (fail_steps url opts net (nat ?M + 1) ?M w) = trace ?w @ [Fetch url]"
    by (simp add: after_fetch_def)
  moreover have "trace ?w = trace w @ concat (map (\<lambda>i. [Fetch url, Sleep (500 * 2 ^ i)]) [0..<nat ?M])"
    using assms fail_steps_trace [of "nat ?M" ?M opts url net w] by simp
  ultimately show ?thesis by simp
qed

lemma first_success:
  assumes "\<not> (\<forall>i\<le>n. P i)"
  shows "\<exists>k\<le>n::nat. \<not> P k \<and> (\<forall>i<k. P i)"
proof -
  from assms obtain i where i: "i \<le> n" "\<not> P i" by auto
  from i(2) have "\<exists>k. \<not> P k \<and> (\<forall>m<k. \<not> \<not> P m)"
    by (subst exists_least_iff [symmetric]) (rule exI)
  then obtain k where k: "\<not> P k" "\<forall>m<k. P m" by auto
  have "k \<le> i"
  proof (rule ccontr)
    assume "\<not> k \<le> i"
    then have "i < k" by simp
    with k(2) i(2) show False by simp
  qed
  with i(1) k show ?thesis by (intro exI [of _ k]) simp
qed

lemma timeout_failure:
  "timeoutMs opts \<le> int (latency x) \<Longrightarrow> failure opts x = Some ''Request timed out''"
  by (simp add: failure_def try_fetch_def fetch_def errMsg_def)

lemma backoff_sorted: "sorted (map (\<lambda>i. 500 * 2 ^ i :: int) [0..<k])"
  by (simp add: sorted_map sorted_wrt_iff_nth_less power_increasing)

lemma attempt_to_first_non_failure:
  assumes "0 \<le> maxRetries opts"
    and "k \<le> nat (maxRetries opts)"
    and "\<forall>i<k. failure opts (net i) \<noteq> None"
  shows "attempt url opts net cached (maxRetries opts) None w =
           attempt url opts net cached (maxRetries opts - int k)
             (if k = 0 then None else failure opts (net (k - 1)))
             (fail_steps url opts net k (maxRetries opts) w)"
proof -
  let ?M = "maxRetries opts"
  have k: "int k \<le> ?M" using assms(1,2) by simp
  have "attempt url opts net cached ?M None w =
          attempt url opts net cached (?M - int k)
            (if k = 0 then None else failure opts (net (nat (?M - ?M) + k - 1)))
            (fail_steps url opts net k ?M w)"
    using k assms(3) by (intro attempt_after_failures) simp_all
  moreover have "nat (?M - ?M) + k - 1 = k - 1" by simp
  ultimately show ?thesis by (simp only:)
qed

lemma attempt_first_success:
  assumes "0 \<le> maxRetries opts"
    and "k \<le> nat (maxRetries opts)"
    and "\<forall>i<k. failure opts (net i) \<noteq> None"
    and "try_fetch opts (net k) = Succeeded d r"
  shows "attempt url opts net cached (maxRetries opts) None w =
           Returned \<lparr>data = d, error = None, stale = False\<rparr>
             (after_write url d (effective_ttl opts r)
                (after_fetch url (timeoutMs opts) (net k)
                   (fail_steps url opts net k (maxRetries opts) w)))"
proof -
  let ?M = "maxRetries opts"
  have k: "0 \<le> ?M - int k" using assms(1,2) by simp
  have idx: "nat (?M - (?M - int k)) = k" by simp
  have "try_fetch opts (net (nat (?M - (?M - int k)))) = Succeeded d r"
    using assms(4) by (simp only: idx)
  from attempt_succeeded [of "?M - int k" opts net d r, OF k this]
  show ?thesis
    by (simp only: attempt_to_first_non_failure [OF assms(1-3)] idx)
qed

lemma attempt_first_stall:
  assumes "0 \<le> maxRetries opts"
    and "k \<le> nat (maxRetries opts)"
    and "\<forall>i<k. failure opts (net i) \<noteq> None"
    and "try_fetch opts (net k) = Stalled"
  shows "attempt url opts net cached (maxRetries opts) None w =
           Hangs (after_fetch url (timeoutMs opts) (net k)
                   (fail_steps url opts net k (maxRetries opts) w))"
proof -
  let ?M = "maxRetries opts"
  have k: "0 \<le> ?M - int k" using assms(1,2) by simp
  have idx: "nat (?M - (?M - int k)) = k" by simp
  have "try_fetch opts (net (nat (?M - (?M - int k)))) = Stalled"
    using assms(4) by (simp only: idx)
  from attempt_stalled [of "?M - int k" opts net, OF k this]
  show ?thesis
    by (simp only: attempt_to_first_non_failure [OF assms(1-3)] idx)
qed

subsection \<open>Evaluation\<close>

lemmas scenario_defs =
  no_cache_def fresh_cache_def stale_cache_def odd_record_def times_out_def answers_def
  answers_forever_def garbled_def stalls_def null_body_def refused_def unavailable_def
  broken_storage_def default_options_def DEFAULT_TIMEOUT_MS_def DEFAULT_MAX_RETRIES_def
  CACHE_PREFIX_def

lemmas client_defs =
  readCache_def try_catch_def getItem_def JSON_parse_def fresh_def to_number_def truthy_def
  data_of_def failure_def try_fetch_def fetch_def errMsg_def ok_def decode_def fallback_def

subsection \<open>Exhausted retries\<close>

lemma apiFetch_not_fresh:
  assumes "readCache w url = Inr cached" and "fresh (clock w) cached = Inr False"
  shows "apiFetch url opts net w = attempt url opts net cached (maxRetries opts) None w"
  using assms by (simp add: apiFetch_def)

lemma apiFetch_all_failed:
  assumes "0 \<le> maxRetries opts"
    and "readCache w url = Inr cached" and "fresh (clock w) cached = Inr False"
    and "\<forall>i\<le>nat (maxRetries opts). failure opts (net i) \<noteq> None"
  shows "apiFetch url opts net w =
           Returned (fallback cached (failure opts (net (nat (maxRetries opts)))))
             (fail_steps url opts net (Suc (nat (maxRetries opts))) (maxRetries opts) w)"
proof -
  have "\<forall>i. int i \<le> maxRetries opts \<longrightarrow> failure opts (net i) \<noteq> None"
    using assms(4) by (simp add: nat_le_iff)
  from attempt_all_failed [OF assms(1) this] show ?thesis
    by (simp add: apiFetch_not_fresh [OF assms(2,3)] attempt_exhausted del: fail_steps.simps)
qed

text \<open>
  C1. For every identity and options with \<open>maxRetries \<ge> 0\<close>: if no fresh cache
  entry short-circuits the call and every one of the \<open>maxRetries + 1\<close> attempts
  fails, then the call returns the payload of the cache entry with the message
  of the final failure and \<open>stale = true\<close> when an entry exists, and
  \<open>data = null\<close> with that message and \<open>stale = false\<close> when none does (nothing
  stored, an unreadable or unparseable record, or a falsy one). The message
  exists: \<open>error\<close> is set.
\<close>

theorem apiFetch_all_attempts_fail:
  assumes "0 \<le> maxRetries opts"
    and "readCache w url = Inr cached"
    and "fresh (clock w) cached = Inr False"
    and "\<forall>i\<le>nat (maxRetries opts). failure opts (net i) \<noteq> None"
  shows "(\<forall>d c t. cached = Some (Entry d c t) \<longrightarrow>
            result_of (apiFetch url opts net w) =
              Some \<lparr>data = d, error = failure opts (net (nat (maxRetries opts))), stale = True\<rparr>)
       \<and> (cached = None \<or> cached = Some Falsy \<longrightarrow>
            result_of (apiFetch url opts net w) =
              Some \<lparr>data = JNull, error = failure opts (net (nat (maxRetries opts))),
                     stale = False\<rparr>)
       \<and> (\<exists>msg. failure opts (net (nat (maxRetries opts))) = Some msg)"
proof -
  have "result_of (apiFetch url opts net w) =
          Some (fallback cached (failure opts (net (nat (maxRetries opts)))))"
    by (simp add: apiFetch_all_failed [OF assms] result_of_def del: fail_steps.simps)
  moreover have "\<exists>msg. failure opts (net (nat (maxRetries opts))) = Some msg"
    using assms(4) by auto
  ultimately show ?thesis
    by (auto simp: fallback_def truthy_def data_of_def)
qed

theorem apiFetch_all_attempts_fail_witness:
  "result_of (apiFetch ''B'' default_options (\<lambda>i. times_out) stale_cache) =
     Some \<lparr>data = JObj [(''y'', JNum 2)], error = Some ''Request timed out'', stale = True\<rparr>"
  using apiFetch_all_attempts_fail [of default_options stale_cache "''B''"
      "Some (Entry (JObj [(''y'', JNum 2)]) (Number 0) (Number 5000))" "\<lambda>i. times_out"]
  by (simp add: scenario_defs client_defs)

subsection \<open>The fast path\<close>

text \<open>
  C2. For every call where the storage is readable and holds for the identity
  an entry that is fresh at call time (\<open>now - storedAt < ttl\<close>), \<open>apiFetch\<close>
  returns the cached payload with no error and \<open>stale = false\<close>, and the world
  is left as it was: no network call, no sleep, no write.
\<close>

theorem apiFetch_fresh_hit:
  assumes "\<not> getItem_throws w"
    and "items w (CACHE_PREFIX @ url) = Some (Text (Entry d (Number c) (Number t)))"
    and "clock w - c < t"
  shows "apiFetch url opts net w = Returned \<lparr>data = d, error = None, stale = False\<rparr> w
       \<and> trace (world_of (apiFetch url opts net w)) = trace w"
  using assms
  by (simp add: apiFetch_def readCache_returns fresh_def to_number_def data_of_def world_of_def)

theorem apiFetch_fresh_hit_witness:
  "apiFetch ''A'' default_options (\<lambda>i. times_out) fresh_cache =
     Returned \<lparr>data = JObj [(''x'', JNum 1)], error = None, stale = False\<rparr> fresh_cache"
  using apiFetch_fresh_hit [of fresh_cache "''A''" "JObj [(''x'', JNum 1)]" 0 5000
      default_options "\<lambda>i. times_out"]
  by (simp add: scenario_defs)

subsection \<open>The cache is written on success only\<close>

text \<open>
  C8. A call that returns through the fresh-cache fast path, or whose every
  attempt fails (stale fallback or hard failure), leaves the items of the
  storage unchanged for every key.
\<close>

theorem apiFetch_writes_only_on_success:
  assumes "readCache w url = Inr cached"
    and "fresh (clock w) cached = Inr True
         \<or> (\<forall>i. int i \<le> maxRetries opts \<longrightarrow> failure opts (net i) \<noteq> None)"
  shows "items (world_of (apiFetch url opts net w)) = items w"
proof (cases "fresh (clock w) cached")
  case (Inl e)
  then show ?thesis using assms(1) by (simp add: apiFetch_def world_of_def)
next
  case (Inr hit)
  show ?thesis
  proof (cases hit)
    case True
    then show ?thesis using assms(1) Inr by (simp add: apiFetch_def world_of_def)
  next
    case False
    with Inr have nf: "fresh (clock w) cached = Inr False" by simp
    with assms(2) have fails: "\<forall>i. int i \<le> maxRetries opts \<longrightarrow> failure opts (net i) \<noteq> None"
      by simp
    show ?thesis
    proof (cases "0 \<le> maxRetries opts")
      case True
      from fails have "\<forall>i\<le>nat (maxRetries opts). failure opts (net i) \<noteq> None"
        using True by (simp add: nat_le_iff)
      from apiFetch_all_failed [OF True assms(1) nf this] show ?thesis
        by (simp add: world_of_def del: fail_steps.simps)
    next
      case neg: False
      then show ?thesis
        by (simp add: apiFetch_not_fresh [OF assms(1) nf] attempt_exhausted world_of_def)
    qed
  qed
qed

theorem apiFetch_writes_only_on_success_witness:
  "items (world_of (apiFetch ''B'' default_options (\<lambda>i. times_out) stale_cache)) =
     items stale_cache"
  using apiFetch_writes_only_on_success [of stale_cache "''B''"
      "Some (Entry (JObj [(''y'', JNum 2)]) (Number 0) (Number 5000))" default_options
      "\<lambda>i. times_out"]
  by (simp add: scenario_defs client_defs)

subsection \<open>The back-off schedule\<close>

text \<open>
  C3. For every \<open>maxRetries \<ge> 0\<close> and every call that goes to the network, the
  events of the call are \<open>k + 1\<close> network calls for some \<open>k \<le> maxRetries\<close>, with
  a sleep of \<open>500 * 2 ^ i\<close> ms between call \<open>i\<close> and call \<open>i + 1\<close> and none
  after the last; the sleeps are non-decreasing; when every attempt fails,
  \<open>k = maxRetries\<close>. With \<open>maxRetries = 2\<close> and every attempt timing out there
  are exactly three calls, with sleeps of 500 ms and 1000 ms between them.
\<close>

theorem backoff_schedule:
  assumes "0 \<le> maxRetries opts"
    and "readCache w url = Inr cached"
    and "fresh (clock w) cached = Inr False"
  shows "(\<exists>k\<le>nat (maxRetries opts).
            trace (world_of (apiFetch url opts net w)) =
              trace w @ concat (map (\<lambda>i. [Fetch url, Sleep (500 * 2 ^ i)]) [0..<k]) @ [Fetch url]
          \<and> sorted (map (\<lambda>i. 500 * 2 ^ i :: int) [0..<k])
          \<and> ((\<forall>i\<le>nat (maxRetries opts). failure opts (net i) \<noteq> None) \<longrightarrow>
               k = nat (maxRetries opts)))
       \<and> (maxRetries opts = 2 \<and> (\<forall>i. timeoutMs opts \<le> int (latency (net i))) \<longrightarrow>
            trace (world_of (apiFetch url opts net w)) =
              trace w @ [Fetch url, Sleep 500, Fetch url, Sleep 1000, Fetch url])"
proof -
  let ?M = "maxRetries opts"
  let ?plan = "\<lambda>k. concat (map (\<lambda>i. [Fetch url, Sleep (500 * 2 ^ i)]) [0..<k]) @ [Fetch url]"
  note call = apiFetch_not_fresh [OF assms(2,3)]
  have all_failed: "trace (world_of (apiFetch url opts net w)) = trace w @ ?plan (nat ?M)"
    if "\<forall>i\<le>nat ?M. failure opts (net i) \<noteq> None"
    using apiFetch_all_failed [OF assms that] fail_steps_exhausted_trace [OF assms(1)]
    by (simp add: world_of_def del: fail_steps.simps)
  have general: "\<exists>k\<le>nat ?M. trace (world_of (apiFetch url opts net w)) = trace w @ ?plan k
      \<and> sorted (map (\<lambda>i. 500 * 2 ^ i :: int) [0..<k])
      \<and> ((\<forall>i\<le>nat ?M. failure opts (net i) \<noteq> None) \<longrightarrow> k = nat ?M)"
  proof (cases "\<forall>i\<le>nat ?M. failure opts (net i) \<noteq> None")
    case True
    from all_failed [OF True] backoff_sorted [of "nat ?M"] show ?thesis
      by (intro exI [of _ "nat ?M"]) simp
  next
    case False
    then obtain k where k: "k \<le> nat ?M" "\<not> failure opts (net k) \<noteq> None"
      "\<forall>i<k. failure opts (net i) \<noteq> None"
      using first_success [of "nat ?M" "\<lambda>i. failure opts (net i) \<noteq> None"] by blast
    have steps: "trace (fail_steps url opts net k ?M w) =
        trace w @ concat (map (\<lambda>i. [Fetch url, Sleep (500 * 2 ^ i)]) [0..<k])"
      using k(1) assms(1) fail_steps_trace [of k ?M opts url net w] by simp
    have "trace (world_of (apiFetch url opts net w)) =
            trace (fail_steps url opts net k ?M w) @ [Fetch url]"
    proof (cases "try_fetch opts (net k)")
      case (Failed msg)
      with k(2) show ?thesis by (simp add: failure_def)
    next
      case (Succeeded d r)
      from attempt_first_success [OF assms(1) k(1) k(3) this] show ?thesis
        by (simp add: call world_of_def after_write_def after_fetch_def)
    next
      case Stalled
      from attempt_first_stall [OF assms(1) k(1) k(3) this] show ?thesis
        by (simp add: call world_of_def after_fetch_def)
    qed
    with steps have "trace (world_of (apiFetch url opts net w)) = trace w @ ?plan k"
      by simp
    moreover from False have "(\<forall>i\<le>nat ?M. failure opts (net i) \<noteq> None) \<longrightarrow> k = nat ?M"
      by blast
    ultimately show ?thesis
      using k(1) backoff_sorted [of k] by (intro exI [of _ k] conjI)
  qed
  have special: "trace (world_of (apiFetch url opts net w)) =
        trace w @ [Fetch url, Sleep 500, Fetch url, Sleep 1000, Fetch url]"
    if "?M = 2" and "\<forall>i. timeoutMs opts \<le> int (latency (net i))"
  proof -
    have "\<forall>i\<le>nat ?M. failure opts (net i) \<noteq> None"
      using that(2) by (simp add: timeout_failure)
    moreover have "nat ?M = Suc (Suc 0)"
      using that(1) by simp
    ultimately show ?thesis
      using all_failed by simp
  qed
  show ?thesis
  proof (intro conjI impI)
    show "\<exists>k\<le>nat ?M. trace (world_of (apiFetch url opts net w)) = trace w @ ?plan k
      \<and> sorted (map (\<lambda>i. 500 * 2 ^ i :: int) [0..<k])
      \<and> ((\<forall>i\<le>nat ?M. failure opts (net i) \<noteq> None) \<longrightarrow> k = nat ?M)"
      by (rule general)
  next
    assume "?M = 2 \<and> (\<forall>i. timeoutMs opts \<le> int (latency (net i)))"
    then show "trace (world_of (apiFetch url opts net w)) =
        trace w @ [Fetch url, Sleep 500, Fetch url, Sleep 1000, Fetch url]"
      using special by simp
  qed
qed

theorem backoff_schedule_witness:
  "trace (world_of (apiFetch ''C'' default_options (\<lambda>i. times_out) no_cache)) =
     [Fetch ''C'', Sleep 500, Fetch ''C'', Sleep 1000, Fetch ''C'']"
proof -
  have "0 \<le> maxRetries default_options"
    by (simp add: scenario_defs)
  moreover have "readCache no_cache ''C'' = Inr None"
    by (simp add: scenario_defs client_defs)
  moreover have "fresh (clock no_cache) None = Inr False"
    by (simp add: client_defs)
  ultimately have "maxRetries default_options = 2
        \<and> (\<forall>i::nat. timeoutMs default_options \<le> int (latency times_out)) \<longrightarrow>
      trace (world_of (apiFetch ''C'' default_options (\<lambda>i. times_out) no_cache)) =
        trace no_cache @ [Fetch ''C'', Sleep 500, Fetch ''C'', Sleep 1000, Fetch ''C'']"
    by (rule backoff_schedule [of default_options no_cache "''C''" None "\<lambda>i. times_out",
          THEN conjunct2])
  then show ?thesis
    by (simp add: scenario_defs)
qed

subsection \<open>A body that does not decode\<close>

lemma decode_failure:
  assumes "int (latency x) < timeoutMs opts" and "reply x = Responds r" and "ok r"
    and "decode (parse opts) r = Rejected err"
  shows "failure opts x = Some (errMsg err)"
  using assms by (simp add: failure_def try_fetch_def fetch_def)

lemma rejection_failure:
  assumes "int (latency x) < timeoutMs opts" and "reply x = Rejects err"
  shows "failure opts x = Some (errMsg err)"
  using assms by (simp add: failure_def try_fetch_def fetch_def)


lemmas run_defs =
  apiFetch_def attempt.simps backoff_def sleep_def after_fetch_def elapsed_def Let_def
  writeCache_def setItem_def stringify_number_def result_of_def world_of_def

text \<open>
  C5, as stated, fails: the message of a decode failure is not the fixed text
  \<^verbatim>\<open>Failed to parse response\<close>. With a 200 response whose body is cut off,
  \<^verbatim>\<open>response.json()\<close> throws a \<^verbatim>\<open>SyntaxError\<close>, the \<^verbatim>\<open>catch\<close> block of
  \<^verbatim>\<open>attempt\<close> takes \<^verbatim>\<open>err.message\<close>, and that text is the error of the result.
\<close>

theorem decode_failure_message_counterexample:
  "result_of (apiFetch ''D'' default_options (\<lambda>i. garbled) no_cache) =
     Some \<lparr>data = JNull, error = Some ''Unexpected end of JSON input'', stale = False\<rparr>
   \<and> result_of (apiFetch ''D'' default_options (\<lambda>i. garbled) no_cache) \<noteq>
       Some \<lparr>data = JNull, error = Some ''Failed to parse response'', stale = False\<rparr>"
proof -
  have "result_of (apiFetch ''D'' default_options (\<lambda>i. garbled) no_cache) =
     Some \<lparr>data = JNull, error = Some ''Unexpected end of JSON input'', stale = False\<rparr>"
    by (simp add: run_defs scenario_defs client_defs)
  then show ?thesis by simp
qed

text \<open>
  C5, amended. On every attempt whose network call completes in time with a
  success status but whose body fails to decode under the configured format,
  the attempt is a failure, not a crash: its message is the message of the
  exception thrown by the decoder (\<^verbatim>\<open>Request timed out\<close> if that exception is
  named \<^verbatim>\<open>AbortError\<close>), the same as for a \<^verbatim>\<open>fetch\<close> rejected with that
  exception, and the call goes on as after any failure: it sleeps if retries
  remain and makes the next attempt with that message as the last error.
\<close>

theorem decode_failure_is_retried:
  assumes "0 \<le> remaining"
    and "x = net (nat (maxRetries opts - remaining))"
    and "int (latency x) < timeoutMs opts"
    and "reply x = Responds r"
    and "ok r"
    and "decode (parse opts) r = Rejected err"
  shows "failure opts x =
           Some (if name err = ''AbortError'' then ''Request timed out'' else message err)
       \<and> failure opts (x\<lparr>reply := Rejects err\<rparr>) = failure opts x
       \<and> attempt url opts net cached remaining lastError w =
           attempt url opts net cached (remaining - 1)
             (Some (if name err = ''AbortError'' then ''Request timed out'' else message err))
             (backoff opts remaining (after_fetch url (timeoutMs opts) x w))"
proof -
  have msg: "failure opts x = Some (errMsg err)"
    using assms(3-6) by (rule decode_failure)
  moreover have "failure opts (x\<lparr>reply := Rejects err\<rparr>) = Some (errMsg err)"
    using assms(3) by (intro rejection_failure) simp_all
  moreover have "attempt url opts net cached remaining lastError w =
      attempt url opts net cached (remaining - 1) (Some (errMsg err))
        (backoff opts remaining (after_fetch url (timeoutMs opts) x w))"
    using assms(1) msg unfolding assms(2) by (rule attempt_failed)
  ultimately show ?thesis by (simp add: errMsg_def)
qed

theorem decode_failure_is_retried_witness:
  "attempt ''D'' default_options (\<lambda>i. garbled) None 2 None no_cache =
     attempt ''D'' default_options (\<lambda>i. garbled) None 1 (Some ''Unexpected end of JSON input'')
       \<lparr>items = Map.empty, getItem_throws = False, setItem_throws = False,
        clock = 620, trace = [Fetch ''D'', Sleep 500]\<rparr>"
  using decode_failure_is_retried [of 2 garbled "\<lambda>i. garbled" default_options
      "\<lparr>status = 200, statusText = ''OK'', cache_control = None,
        body_json = Rejected (Exn ''SyntaxError'' ''Unexpected end of JSON input''),
        body_text = Fulfilled ''{''\<rparr>"
      "Exn ''SyntaxError'' ''Unexpected end of JSON input''" "''D''" None None no_cache]
  by (simp add: scenario_defs client_defs backoff_def sleep_def after_fetch_def elapsed_def)

subsection \<open>The ways a call ends\<close>


text \<open>The ways a call ends, when the read of the cache has given \<open>cached\<close>.\<close>

lemma apiFetch_cases:
  assumes "readCache w url = Inr cached"
  shows "(\<exists>e. fresh (clock w) cached = Inl e \<and> apiFetch url opts net w = Threw e w)
   \<or> (fresh (clock w) cached = Inr True
      \<and> apiFetch url opts net w =
          Returned \<lparr>data = data_of cached, error = None, stale = False\<rparr> w)
   \<or> (fresh (clock w) cached = Inr False \<and> maxRetries opts < 0
      \<and> apiFetch url opts net w = Returned (fallback cached None) w)
   \<or> (fresh (clock w) cached = Inr False \<and> 0 \<le> maxRetries opts
      \<and> (\<exists>k\<le>nat (maxRetries opts). \<exists>d r.
            (\<forall>i<k. failure opts (net i) \<noteq> None) \<and> try_fetch opts (net k) = Succeeded d r
            \<and> result_of (apiFetch url opts net w) =
                Some \<lparr>data = d, error = None, stale = False\<rparr>))
   \<or> (fresh (clock w) cached = Inr False \<and> 0 \<le> maxRetries opts
      \<and> (\<exists>k\<le>nat (maxRetries opts).
            (\<forall>i<k. failure opts (net i) \<noteq> None) \<and> try_fetch opts (net k) = Stalled
            \<and> (\<exists>w'. apiFetch url opts net w = Hangs w')))
   \<or> (fresh (clock w) cached = Inr False \<and> 0 \<le> maxRetries opts
      \<and> (\<forall>i\<le>nat (maxRetries opts). failure opts (net i) \<noteq> None)
      \<and> result_of (apiFetch url opts net w) =
          Some (fallback cached (failure opts (net (nat (maxRetries opts))))))"
proof (cases "fresh (clock w) cached")
  case (Inl e)
  then show ?thesis using assms by (simp add: apiFetch_def)
next
  case (Inr hit)
  show ?thesis
  proof (cases hit)
    case True
    then show ?thesis using assms Inr by (simp add: apiFetch_def)
  next
    case False
    with Inr have nf: "fresh (clock w) cached = Inr False" by simp
    note call = apiFetch_not_fresh [OF assms nf]
    show ?thesis
    proof (cases "0 \<le> maxRetries opts")
      case neg: False
      then show ?thesis using nf by (simp add: call attempt_exhausted)
    next
      case True
      show ?thesis
      proof (cases "\<forall>i\<le>nat (maxRetries opts). failure opts (net i) \<noteq> None")
        case all: True
        from apiFetch_all_failed [OF True assms nf all]
        have "result_of (apiFetch url opts net w) =
            Some (fallback cached (failure opts (net (nat (maxRetries opts)))))"
          by (simp add: result_of_def del: fail_steps.simps)
        with nf True all show ?thesis by simp
      next
        case some: False
        then obtain k where k: "k \<le> nat (maxRetries opts)" "\<not> failure opts (net k) \<noteq> None"
          "\<forall>i<k. failure opts (net i) \<noteq> None"
          using first_success [of "nat (maxRetries opts)" "\<lambda>i. failure opts (net i) \<noteq> None"]
          by blast
        show ?thesis
        proof (cases "try_fetch opts (net k)")
          case (Failed msg)
          with k(2) show ?thesis by (simp add: failure_def)
        next
          case (Succeeded d r)
          from attempt_first_success [OF True k(1) k(3) this]
          have "result_of (apiFetch url opts net w) =
              Some \<lparr>data = d, error = None, stale = False\<rparr>"
            by (simp add: call result_of_def)
          with k(1,3) Succeeded have "\<exists>k\<le>nat (maxRetries opts). \<exists>d r.
              (\<forall>i<k. failure opts (net i) \<noteq> None) \<and> try_fetch opts (net k) = Succeeded d r
              \<and> result_of (apiFetch url opts net w) =
                  Some \<lparr>data = d, error = None, stale = False\<rparr>"
            by blast
          with nf True show ?thesis by simp
        next
          case Stalled
          from attempt_first_stall [OF True k(1) k(3) this]
          have "\<exists>w'. apiFetch url opts net w = Hangs w'"
            by (simp add: call)
          with k(1,3) Stalled have "\<exists>k\<le>nat (maxRetries opts).
              (\<forall>i<k. failure opts (net i) \<noteq> None) \<and> try_fetch opts (net k) = Stalled
              \<and> (\<exists>w'. apiFetch url opts net w = Hangs w')"
            by blast
          with nf True show ?thesis by simp
        qed
      qed
    qed
  qed
qed

subsection \<open>The shape of the result\<close>

text \<open>
  C6, as stated, fails in its second part: \<open>data\<close> can be absent while \<open>error\<close>
  is empty. A server that answers 200 with the JSON text \<^verbatim>\<open>null\<close> makes the
  first attempt succeed with the payload \<^verbatim>\<open>null\<close>; and a call with
  \<open>maxRetries = -1\<close> and nothing cached makes no attempt at all and returns the
  initial \<open>lastError\<close>, which is \<^verbatim>\<open>null\<close>.
\<close>

theorem result_invariant_counterexample:
  "result_of (apiFetch ''N'' default_options (\<lambda>i. null_body) no_cache) =
     Some \<lparr>data = JNull, error = None, stale = False\<rparr>
   \<and> result_of (apiFetch ''N'' (default_options\<lparr>maxRetries := - 1\<rparr>) (\<lambda>i. refused) no_cache) =
     Some \<lparr>data = JNull, error = None, stale = False\<rparr>"
  by (simp add: run_defs scenario_defs client_defs)

text \<open>
  C6, amended. After every call with \<open>maxRetries \<ge> 0\<close> that returns a result,
  exactly one of \<open>data\<close> present with \<open>stale = false\<close>, \<open>data\<close> present with
  \<open>stale = true\<close> and \<open>data\<close> absent holds. When \<open>data\<close> is absent, \<open>error\<close> is
  non-empty unless the absent value is itself the payload: that of a fresh
  cache entry, or that of the attempt that succeeded. \<open>error\<close> is non-empty
  alongside stale data.
\<close>

theorem result_invariant:
  assumes "0 \<le> maxRetries opts"
    and "result_of (apiFetch url opts net w) = Some r"
  shows "(((\<not> absent (data r) \<and> \<not> stale r) \<and> \<not> (\<not> absent (data r) \<and> stale r) \<and> \<not> absent (data r))
          \<or> (\<not> (\<not> absent (data r) \<and> \<not> stale r) \<and> (\<not> absent (data r) \<and> stale r) \<and> \<not> absent (data r))
          \<or> (\<not> (\<not> absent (data r) \<and> \<not> stale r) \<and> \<not> (\<not> absent (data r) \<and> stale r) \<and> absent (data r)))
       \<and> (absent (data r) \<longrightarrow>
            error r \<noteq> None
            \<or> (\<exists>cached. readCache w url = Inr cached \<and> fresh (clock w) cached = Inr True
                  \<and> data r = data_of cached)
            \<or> (\<exists>k\<le>nat (maxRetries opts). \<exists>resp. try_fetch opts (net k) = Succeeded (data r) resp))
       \<and> (stale r \<longrightarrow> error r \<noteq> None)"
proof -
  have one: "((\<not> absent (data r) \<and> \<not> stale r) \<and> \<not> (\<not> absent (data r) \<and> stale r) \<and> \<not> absent (data r))
          \<or> (\<not> (\<not> absent (data r) \<and> \<not> stale r) \<and> (\<not> absent (data r) \<and> stale r) \<and> \<not> absent (data r))
          \<or> (\<not> (\<not> absent (data r) \<and> \<not> stale r) \<and> \<not> (\<not> absent (data r) \<and> stale r) \<and> absent (data r))"
    by blast
  obtain cached where cached: "readCache w url = Inr cached"
    using readCache_returns by blast
  have rest: "(absent (data r) \<longrightarrow>
            error r \<noteq> None
            \<or> (\<exists>cached. readCache w url = Inr cached \<and> fresh (clock w) cached = Inr True
                  \<and> data r = data_of cached)
            \<or> (\<exists>k\<le>nat (maxRetries opts). \<exists>resp. try_fetch opts (net k) = Succeeded (data r) resp))
       \<and> (stale r \<longrightarrow> error r \<noteq> None)"
    using apiFetch_cases [OF cached, of opts net]
  proof (elim disjE conjE exE)
    fix e
    assume "apiFetch url opts net w = Threw e w"
    with assms(2) show ?thesis by (simp add: result_of_def)
  next
    assume "apiFetch url opts net w =
        Returned \<lparr>data = data_of cached, error = None, stale = False\<rparr> w"
      and "fresh (clock w) cached = Inr True"
    with assms(2) cached show ?thesis by (auto simp: result_of_def)
  next
    assume "maxRetries opts < 0"
    with assms(1) show ?thesis by simp
  next
    fix k d resp
    assume "k \<le> nat (maxRetries opts)" and "try_fetch opts (net k) = Succeeded d resp"
      and "result_of (apiFetch url opts net w) = Some \<lparr>data = d, error = None, stale = False\<rparr>"
    with assms(2) show ?thesis by auto
  next
    fix k w'
    assume "apiFetch url opts net w = Hangs w'"
    with assms(2) show ?thesis by (simp add: result_of_def)
  next
    assume all: "\<forall>i\<le>nat (maxRetries opts). failure opts (net i) \<noteq> None"
      and res: "result_of (apiFetch url opts net w) =
        Some (fallback cached (failure opts (net (nat (maxRetries opts)))))"
    from all obtain msg where "failure opts (net (nat (maxRetries opts))) = Some msg"
      by auto
    with res assms(2) have "r = fallback cached (Some msg)" by simp
    then show ?thesis by (simp add: fallback_def)
  qed
  from one rest show ?thesis by (rule conjI)
qed

theorem result_invariant_witness:
  "result_of (apiFetch ''C'' default_options (\<lambda>i. times_out) no_cache) =
     Some \<lparr>data = JNull, error = Some ''Request timed out'', stale = False\<rparr>
   \<and> absent (data \<lparr>data = JNull, error = Some ''Request timed out'', stale = False\<rparr>)
   \<and> error \<lparr>data = JNull, error = Some ''Request timed out'', stale = False\<rparr> \<noteq> None
   \<and> result_of (apiFetch ''B'' default_options (\<lambda>i. times_out) stale_cache) =
     Some \<lparr>data = JObj [(''y'', JNum 2)], error = Some ''Request timed out'', stale = True\<rparr>"
proof -
  have hard: "result_of (apiFetch ''C'' default_options (\<lambda>i. times_out) no_cache) =
      Some \<lparr>data = JNull, error = Some ''Request timed out'', stale = False\<rparr>"
    by (simp add: run_defs scenario_defs client_defs)
  have soft: "result_of (apiFetch ''B'' default_options (\<lambda>i. times_out) stale_cache) =
      Some \<lparr>data = JObj [(''y'', JNum 2)], error = Some ''Request timed out'', stale = True\<rparr>"
    by (simp add: run_defs scenario_defs client_defs)
  have M: "0 \<le> maxRetries default_options"
    by (simp add: scenario_defs)
  from result_invariant [OF M soft]
  have "error \<lparr>data = JObj [(''y'', JNum 2)], error = Some ''Request timed out'', stale = True\<rparr>
      \<noteq> None"
    by simp
  moreover from result_invariant [OF M hard]
  have "error \<lparr>data = JNull, error = Some ''Request timed out'', stale = False\<rparr> \<noteq> None"
    by simp
  ultimately show ?thesis using hard soft by (simp add: absent_def)
qed

subsection \<open>What leaves the client\<close>










subsection \<open>The lifetime stored with the payload\<close>

lemma after_prefix_eq:
  "after_prefix p s = (if take (length p) s = p then Some (drop (length p) s) else None)"
proof (induction p s rule: after_prefix.induct)
  case (1 s)
  then show ?case by simp
next
  case (2 p ps)
  then show ?case by simp
next
  case (3 p ps c cs)
  then show ?case by auto
qed

lemma match_here_eq:
  "match_here s =
     (if starts_directive s then Some (takeWhile is_digit (drop 8 s)) else None)"
proof -
  have len: "length ''max-age='' = 8" by simp
  have "after_prefix ''max-age='' s =
      (if take 8 s = ''max-age='' then Some (drop 8 s) else None)"
    by (simp only: after_prefix_eq len)
  then show ?thesis
    by (cases "drop 8 s") (simp_all add: match_here_def starts_directive_def Let_def)
qed

lemma match_max_age_leftmost:
  assumes "starts_directive (drop i cc)"
    and "\<forall>j<i. \<not> starts_directive (drop j cc)"
  shows "match_max_age cc = Some (takeWhile is_digit (drop (i + 8) cc))"
  using assms
proof (induction i arbitrary: cc)
  case 0
  then have here: "match_here cc = Some (takeWhile is_digit (drop 8 cc))"
    by (simp add: match_here_eq)
  then have "cc \<noteq> []" by (auto simp: match_here_def)
  then obtain c cs where "cc = c # cs" by (cases cc) auto
  with here show ?case by simp
next
  case (Suc i)
  from Suc.prems(1) have "drop (Suc i) cc \<noteq> []"
    by (auto simp: starts_directive_def)
  then obtain c cs where cc: "cc = c # cs" by (cases cc) auto
  from Suc.prems(2) have "\<not> starts_directive (drop 0 cc)" by blast
  then have none: "match_here (c # cs) = None"
    by (simp add: match_here_eq cc)
  have "starts_directive (drop i cs)" using Suc.prems(1) by (simp add: cc)
  moreover have "\<forall>j<i. \<not> starts_directive (drop j cs)"
  proof (intro allI impI)
    fix j assume "j < i"
    then have "Suc j < Suc i" by simp
    with Suc.prems(2) have "\<not> starts_directive (drop (Suc j) cc)" by blast
    then show "\<not> starts_directive (drop j cs)" by (simp add: cc)
  qed
  ultimately have "match_max_age cs = Some (takeWhile is_digit (drop (i + 8) cs))"
    by (rule Suc.IH)
  moreover have "drop (Suc i + 8) (c # cs) = drop (i + 8) cs"
  proof -
    have "Suc i + 8 = Suc (i + 8)" by simp
    then show ?thesis by (simp only: drop_Suc_Cons)
  qed
  ultimately show ?case using none by (simp only: cc match_max_age.simps option.case)
qed

lemma match_max_age_none:
  assumes "\<forall>j. \<not> starts_directive (drop j cc)"
  shows "match_max_age cc = None"
  using assms
proof (induction cc)
  case Nil
  then show ?case by simp
next
  case (Cons c cs)
  from Cons.prems have "\<not> starts_directive (drop 0 (c # cs))" by blast
  then have "match_here (c # cs) = None" by (simp add: match_here_eq)
  moreover have "\<forall>j. \<not> starts_directive (drop j cs)"
  proof
    fix j
    from Cons.prems have "\<not> starts_directive (drop (Suc j) (c # cs))" by blast
    then show "\<not> starts_directive (drop j cs)" by simp
  qed
  ultimately show ?case using Cons.IH by simp
qed

lemma to_double_exact: "n < 2 ^ 53 \<Longrightarrow> to_double n = Finite (int n)"
  by (simp add: to_double_def)

lemma seconds_to_ms:
  assumes "n * 1000 < 2 ^ 53"
  shows "times (to_double n) 1000 = Finite (int n * 1000)"
proof -
  have "n \<le> n * 1000" by simp
  from this assms have "n < 2 ^ 53" by (rule le_less_trans)
  with assms show ?thesis by (simp add: to_double_exact times_def)
qed

lemma bit_length_eq: "2 ^ k \<le> n \<Longrightarrow> n < 2 ^ Suc k \<Longrightarrow> bit_length n = Suc k"
proof (induction k arbitrary: n)
  case 0
  then have "n = 1" by simp
  then show ?case by (simp add: bit_length.simps [of "Suc 0"] bit_length.simps [of 0])
next
  case (Suc k)
  from Suc.prems have "2 ^ k \<le> n div 2" "n div 2 < 2 ^ Suc k" by simp_all
  then have "bit_length (n div 2) = Suc k" by (rule Suc.IH)
  moreover have "n \<noteq> 0"
  proof
    assume "n = 0"
    with Suc.prems(1) have "(2::nat) ^ Suc k \<le> 0" by simp
    then show False by simp
  qed
  ultimately show ?case by (subst bit_length.simps) simp
qed

lemma to_double_tie: "to_double 9007199254740993 = Finite 9007199254740992"
proof -
  have "bit_length 9007199254740993 = Suc 53"
    by (rule bit_length_eq) simp_all
  then show ?thesis by (simp add: to_double_def Let_def)
qed

lemma to_double_ms: "to_double 9007199254740992000 = Finite 9007199254740992000"
proof -
  have "bit_length 9007199254740992000 = Suc 62"
    by (rule bit_length_eq) simp_all
  then show ?thesis by (simp add: to_double_def Let_def)
qed

lemmas header_defs =
  parseCacheControlMaxAge_def match_here_def is_digit_def decimal_def digit_val_def
  times_def

text \<open>
  C4, as stated, fails. The directive is read with \<^verbatim>\<open>parseInt\<close> and multiplied by
  1000 in double-precision numbers: for \<^verbatim>\<open>Cache-Control: max-age=9007199254740993\<close>
  the entry stored has the lifetime 9007199254740992000, which is not
  9007199254740993 seconds converted to milliseconds.
\<close>

theorem cache_ttl_written_counterexample:
  "items (world_of (apiFetch ''A'' default_options (\<lambda>i. answers_forever) no_cache))
     (CACHE_PREFIX @ ''A'') =
     Some (Text (Entry (JObj [(''x'', JNum 1)]) (Number 120) (Number 9007199254740992000)))
   \<and> (9007199254740992000 :: int) \<noteq> 9007199254740993 * 1000"
  by (simp add: run_defs scenario_defs client_defs header_defs to_double_tie to_double_ms)

text \<open>
  C4, amended. When the first attempt that succeeds answers with the payload
  \<open>d\<close> and the response \<open>r\<close>, and the storage accepts the write, the entry stored
  under the key of the URL holds \<open>d\<close> and the lifetime \<^verbatim>\<open>serverTtl ?? ttlMs\<close> as
  \<^verbatim>\<open>JSON.stringify\<close> writes it, where \<^verbatim>\<open>serverTtl\<close> is the double that
  \<open>parseCacheControlMaxAge\<close> computes (\<^verbatim>\<open>null\<close> in the record when it overflows).
  When the header \<open>cc\<close> has its leftmost occurrence of \<^verbatim>\<open>max-age=\<close> followed by a
  digit at position \<open>i\<close>, and the digits there times 1000 stay below \<open>2^53\<close>, the
  lifetime is that number times 1000, whatever \<open>options.ttl\<close> is. When the
  response has no \<^verbatim>\<open>Cache-Control\<close> header, or the header has no \<^verbatim>\<open>max-age=\<close>
  followed by a digit, the lifetime is \<open>options.ttl\<close>.
\<close>

theorem cache_ttl_written:
  assumes "0 \<le> maxRetries opts"
    and "readCache w url = Inr cached"
    and "fresh (clock w) cached = Inr False"
    and "k \<le> nat (maxRetries opts)"
    and "\<forall>i<k. failure opts (net i) \<noteq> None"
    and "try_fetch opts (net k) = Succeeded d r"
    and "\<not> setItem_throws w"
  shows "(\<exists>t. items (world_of (apiFetch url opts net w)) (CACHE_PREFIX @ url) =
            Some (Text (Entry d (Number t)
              (stringify_number
                 (case parseCacheControlMaxAge r of
                    Some ms \<Rightarrow> ms
                  | None \<Rightarrow> Finite (ttlMs opts))))))
       \<and> (\<forall>cc i.
            cache_control r = Some cc \<and> starts_directive (drop i cc)
            \<and> (\<forall>j<i. \<not> starts_directive (drop j cc))
            \<and> decimal (takeWhile is_digit (drop (i + 8) cc)) * 1000 < 2 ^ 53 \<longrightarrow>
            (\<exists>t. items (world_of (apiFetch url opts net w)) (CACHE_PREFIX @ url) =
               Some (Text (Entry d (Number t)
                 (Number (int (decimal (takeWhile is_digit (drop (i + 8) cc))) * 1000))))))
       \<and> (cache_control r = None
            \<or> (\<exists>cc. cache_control r = Some cc \<and> (\<forall>j. \<not> starts_directive (drop j cc))) \<longrightarrow>
            (\<exists>t. items (world_of (apiFetch url opts net w)) (CACHE_PREFIX @ url) =
               Some (Text (Entry d (Number t) (Number (ttlMs opts))))))"
proof -
  let ?w = "after_fetch url (timeoutMs opts) (net k) (fail_steps url opts net k (maxRetries opts) w)"
  have "world_of (apiFetch url opts net w) = after_write url d (effective_ttl opts r) ?w"
    using attempt_first_success [OF assms(1,4,5,6)]
    by (simp add: apiFetch_not_fresh [OF assms(2,3)] world_of_def)
  moreover have "\<not> setItem_throws ?w"
    using assms(7) by (simp add: after_fetch_def)
  ultimately have stored: "items (world_of (apiFetch url opts net w)) (CACHE_PREFIX @ url) =
      Some (Text (Entry d (Number (clock ?w)) (stringify_number (effective_ttl opts r))))"
    by (simp add: after_write_def)
  show ?thesis
  proof (intro conjI allI impI)
    show "\<exists>t. items (world_of (apiFetch url opts net w)) (CACHE_PREFIX @ url) =
            Some (Text (Entry d (Number t)
              (stringify_number
                 (case parseCacheControlMaxAge r of
                    Some ms \<Rightarrow> ms
                  | None \<Rightarrow> Finite (ttlMs opts)))))"
      using stored by (simp add: effective_ttl_def)
  next
    fix cc i
    assume h: "cache_control r = Some cc \<and> starts_directive (drop i cc)
            \<and> (\<forall>j<i. \<not> starts_directive (drop j cc))
            \<and> decimal (takeWhile is_digit (drop (i + 8) cc)) * 1000 < 2 ^ 53"
    then have "match_max_age cc = Some (takeWhile is_digit (drop (i + 8) cc))"
      by (intro match_max_age_leftmost) simp_all
    with h have "effective_ttl opts r =
        Finite (int (decimal (takeWhile is_digit (drop (i + 8) cc))) * 1000)"
      by (simp add: effective_ttl_def parseCacheControlMaxAge_def seconds_to_ms)
    with stored show "\<exists>t. items (world_of (apiFetch url opts net w)) (CACHE_PREFIX @ url) =
        Some (Text (Entry d (Number t)
          (Number (int (decimal (takeWhile is_digit (drop (i + 8) cc))) * 1000))))"
      by (simp add: stringify_number_def)
  next
    assume "cache_control r = None
        \<or> (\<exists>cc. cache_control r = Some cc \<and> (\<forall>j. \<not> starts_directive (drop j cc)))"
    then have "parseCacheControlMaxAge r = None"
      by (auto simp: parseCacheControlMaxAge_def match_max_age_none)
    with stored show "\<exists>t. items (world_of (apiFetch url opts net w)) (CACHE_PREFIX @ url) =
        Some (Text (Entry d (Number t) (Number (ttlMs opts))))"
      by (simp add: effective_ttl_def stringify_number_def)
  qed
qed

theorem cache_ttl_written_witness:
  "\<exists>t. items (world_of (apiFetch ''A'' default_options (\<lambda>i. answers) no_cache))
          (CACHE_PREFIX @ ''A'') =
     Some (Text (Entry (JObj [(''x'', JNum 1)]) (Number t) (Number 900000)))"
proof -
  let ?r = "\<lparr>status = 200, statusText = ''OK'', cache_control = Some ''max-age=900'',
        body_json = Fulfilled (JObj [(''x'', JNum 1)]), body_text = Fulfilled ''{\"x\":1}''\<rparr>"
  have prems: "0 \<le> maxRetries default_options" "readCache no_cache ''A'' = Inr None"
    "fresh (clock no_cache) None = Inr False" "0 \<le> nat (maxRetries default_options)"
    "\<forall>i<(0::nat). failure default_options ((\<lambda>i. answers) i) \<noteq> None"
    "try_fetch default_options ((\<lambda>i. answers) 0) = Succeeded (JObj [(''x'', JNum 1)]) ?r"
    "\<not> setItem_throws no_cache"
    by (simp_all add: scenario_defs client_defs)
  note leftmost = cache_ttl_written [OF prems, THEN conjunct2, THEN conjunct1, rule_format,
      of "''max-age=900''" 0]
  have "cache_control ?r = Some ''max-age=900'' \<and> starts_directive (drop 0 ''max-age=900'')
      \<and> (\<forall>j<0. \<not> starts_directive (drop j ''max-age=900''))
      \<and> decimal (takeWhile is_digit (drop (0 + 8) ''max-age=900'')) * 1000 < 2 ^ 53"
    by (simp add: starts_directive_def is_digit_def decimal_def digit_val_def)
  from leftmost [OF this] show ?thesis
    by (simp add: is_digit_def decimal_def digit_val_def)
qed

section \<open>Properties of the FIRMS proxy\<close>

lemma parseInt_default_days: "parseInt DEFAULT_DAYS = Some 1"
  by (simp add: parseInt_def DEFAULT_DAYS_def is_space_def is_digit_def decimal_def digit_val_def)

lemma parseInt_empty: "parseInt [] = None"
  by (simp add: parseInt_def)

lemma daysInt_missing: "sp ''days'' = None \<Longrightarrow> daysInt sp = 1"
  by (simp add: daysInt_def or_default_def parseInt_default_days)

lemma daysInt_NaN: "sp ''days'' = Some s \<Longrightarrow> parseInt s = None \<Longrightarrow> daysInt sp = 1"
  by (simp add: daysInt_def or_default_def parseInt_default_days)

lemma daysInt_number:
  "sp ''days'' = Some s \<Longrightarrow> parseInt s = Some n \<Longrightarrow>
   daysInt sp = min 10 (max 1 (if n = 0 then 1 else n))"
  by (auto simp: daysInt_def or_default_def parseInt_empty)

lemmas proxy_defs =
  firmsUrl_def daysInt_def or_default_def parseInt_def is_space_def is_digit_def decimal_def
  digit_val_def DEFAULT_SOURCE_def DEFAULT_DAYS_def FIRMS_BASE_def firms_upstream_def
  plain_response_def ok_def show_nat.simps parseCsv_def trim_def fromEntries_def
  new_Response_def

subsection \<open>The day range\<close>

text \<open>
  C10. For every value of the \<^verbatim>\<open>days\<close> query parameter, the last segment of
  the upstream URL is the decimal text of an integer between 1 and 10: a
  missing value and a value in which \<^verbatim>\<open>parseInt\<close> finds no number give 1, a
  number below 1 gives 1, a number above 10 gives 10, and a number from 1 to 10
  is kept.
\<close>

theorem daysInt_range:
  "1 \<le> daysInt sp \<and> daysInt sp \<le> 10
   \<and> (sp ''days'' = None \<longrightarrow> daysInt sp = 1)
   \<and> (\<forall>s. sp ''days'' = Some s \<and> parseInt s = None \<longrightarrow> daysInt sp = 1)
   \<and> (\<forall>s n. sp ''days'' = Some s \<and> parseInt s = Some n \<and> n < 1 \<longrightarrow> daysInt sp = 1)
   \<and> (\<forall>s n. sp ''days'' = Some s \<and> parseInt s = Some n \<and> 10 < n \<longrightarrow> daysInt sp = 10)
   \<and> (\<forall>s n. sp ''days'' = Some s \<and> parseInt s = Some n \<and> 1 \<le> n \<and> n \<le> 10 \<longrightarrow>
          daysInt sp = n)
   \<and> firmsUrl key sp =
       FIRMS_BASE @ ''/'' @ key @ ''/'' @ or_default (sp ''source'') DEFAULT_SOURCE @ ''/''
         @ or_default (sp ''bbox'') ''world'' @ ''/'' @ show_nat (nat (daysInt sp))"
proof (intro conjI allI impI)
  show "1 \<le> daysInt sp" by (simp add: daysInt_def)
  show "daysInt sp \<le> 10" by (simp add: daysInt_def)
  show "daysInt sp = 1" if "sp ''days'' = None"
    using that by (rule daysInt_missing)
  show "daysInt sp = 1" if "sp ''days'' = Some s \<and> parseInt s = None" for s
    using that by (auto intro: daysInt_NaN)
  show "daysInt sp = 1" if "sp ''days'' = Some s \<and> parseInt s = Some n \<and> n < 1" for s n
    using that daysInt_number [of sp s n] by auto
  show "daysInt sp = 10" if "sp ''days'' = Some s \<and> parseInt s = Some n \<and> 10 < n" for s n
    using that daysInt_number [of sp s n] by auto
  show "daysInt sp = n" if "sp ''days'' = Some s \<and> parseInt s = Some n \<and> 1 \<le> n \<and> n \<le> 10"
    for s n
    using that daysInt_number [of sp s n] by auto
  show "firmsUrl key sp =
       FIRMS_BASE @ ''/'' @ key @ ''/'' @ or_default (sp ''source'') DEFAULT_SOURCE @ ''/''
         @ or_default (sp ''bbox'') ''world'' @ ''/'' @ show_nat (nat (daysInt sp))"
    by (simp add: firmsUrl_def)
qed

theorem daysInt_range_witness:
  "daysInt [''days'' \<mapsto> ''15''] = 10
   \<and> daysInt [''days'' \<mapsto> ''-2''] = 1
   \<and> daysInt [''days'' \<mapsto> ''soon''] = 1
   \<and> daysInt Map.empty = 1
   \<and> daysInt [''days'' \<mapsto> ''7''] = 7
   \<and> firmsUrl ''KEY'' [''days'' \<mapsto> ''7''] =
       ''https://firms.modaps.eosdis.nasa.gov/api/area/csv/KEY/VIIRS_SNPP_NRT/world/7''"
  using daysInt_range [of "[''days'' \<mapsto> ''15'']" "''KEY''"]
    daysInt_range [of "[''days'' \<mapsto> ''-2'']" "''KEY''"]
    daysInt_range [of "[''days'' \<mapsto> ''soon'']" "''KEY''"]
    daysInt_range [of "Map.empty" "''KEY''"]
    daysInt_range [of "[''days'' \<mapsto> ''7'']" "''KEY''"]
  by (simp add: parseInt_def is_space_def is_digit_def decimal_def digit_val_def
      or_default_def DEFAULT_SOURCE_def FIRMS_BASE_def show_nat.simps)

subsection \<open>The rows of a CSV text\<close>

lemma parseCsv_rows:
  "parseCsv (''latitude, longitude'' @ [CHR 0x0A] @ ''10.5,20.1'' @ [CHR 0x0A]) =
     [[''latitude'' \<mapsto> ''10.5'', ''longitude'' \<mapsto> ''20.1'']]"
  by (simp add: parseCsv_def trim_def is_space_def fromEntries_def)

lemma parseCsv_repeated_header:
  "parseCsv (''a,a,b'' @ [CHR 0x0A] @ ''1,2'') = [[''a'' \<mapsto> ''2'', ''b'' \<mapsto> '''']]"
  by (simp add: parseCsv_def trim_def is_space_def fromEntries_def)

lemma parseCsv_header_only: "parseCsv ''latitude,longitude'' = []"
  by (simp add: parseCsv_def trim_def is_space_def)

subsection \<open>The status of the answer\<close>

lemma new_Response_accepts:
  "200 \<le> s \<Longrightarrow> s \<le> 599 \<Longrightarrow> s \<noteq> 204 \<Longrightarrow> s \<noteq> 205 \<Longrightarrow> s \<noteq> 304 \<Longrightarrow>
   new_Response b s = Inr (Response s b)"
  by (simp add: new_Response_def)

lemma new_Response_refuses:
  "s < 200 \<or> 599 < s \<or> s = 304 \<Longrightarrow> \<exists>e. new_Response b s = Inl e"
  by (auto simp: new_Response_def)

text \<open>
  C9, as stated, fails. The answer for an upstream status outside 200..299 is
  built by \<^verbatim>\<open>new Response(body, { status: upstream.status })\<close> inside the
  \<^verbatim>\<open>try\<close> block, and the constructor throws for a status that allows no body
  and for a status outside 200..599: when the upstream answers 304, and when it
  answers 999, the proxy answers 500 and not the upstream's status.
\<close>

theorem onRequestGet_status_counterexample:
  "firms_upstream (firmsUrl ''SAME'' [''days'' \<mapsto> ''3'']) =
     Fulfilled (plain_response 304 ''Not Modified'' [])
   \<and> onRequestGet (Some ''SAME'') [''days'' \<mapsto> ''3''] firms_upstream =
     Some (Response 500
       (ErrorBody ''Proxy error: Response with null body status cannot have body''))
   \<and> firms_upstream (firmsUrl ''ODD'' [''days'' \<mapsto> ''3'']) =
     Fulfilled (plain_response 999 ''Request denied'' [])
   \<and> onRequestGet (Some ''ODD'') [''days'' \<mapsto> ''3''] firms_upstream =
     Some (Response 500
       (ErrorBody ''Proxy error: The status provided is outside the range [200, 599].''))"
  by (simp add: onRequestGet_def proxy_defs)

text \<open>
  C9, amended. For every GET request: the answer is 503 with an error body
  when \<^verbatim>\<open>FIRMS_API_KEY\<close> is not set or empty. With a key: when the upstream
  answers with a status from 300 to 599 other than 304, the answer has the
  upstream's status and an error body that names it; when the upstream answers
  with a status below 200, above 599 or with 304, the answer is 500 with an
  error body; when the upstream answers with a status in 200..299 and its text
  can be read, the answer is 200 with the objects of \<^verbatim>\<open>parseCsv\<close>; when
  \<^verbatim>\<open>fetch\<close> or the read of the text throws, the answer is 500 with the message
  of the exception; and when \<^verbatim>\<open>fetch\<close> or the read of the text never settles,
  there is no answer.
\<close>

theorem onRequestGet_status:
  "(apiKey = None \<or> apiKey = Some [] \<longrightarrow>
      onRequestGet apiKey sp up =
        Some (Response 503
          (ErrorBody ''FIRMS_API_KEY environment variable is not configured.'')))
   \<and> (\<forall>key r. apiKey = Some key \<and> key \<noteq> [] \<and> up (firmsUrl key sp) = Fulfilled r
            \<and> 300 \<le> status r \<and> status r \<le> 599 \<and> status r \<noteq> 304 \<longrightarrow>
          onRequestGet apiKey sp up =
            Some (Response (status r)
              (ErrorBody (''FIRMS upstream error: HTTP '' @ show_nat (status r)))))
   \<and> (\<forall>key r. apiKey = Some key \<and> key \<noteq> [] \<and> up (firmsUrl key sp) = Fulfilled r
            \<and> (status r < 200 \<or> 599 < status r \<or> status r = 304) \<longrightarrow>
          (\<exists>msg. onRequestGet apiKey sp up =
             Some (Response 500 (ErrorBody (''Proxy error: '' @ msg)))))
   \<and> (\<forall>key r csv. apiKey = Some key \<and> key \<noteq> [] \<and> up (firmsUrl key sp) = Fulfilled r
            \<and> 200 \<le> status r \<and> status r \<le> 299 \<and> body_text r = Fulfilled csv \<longrightarrow>
          onRequestGet apiKey sp up = Some (Response 200 (Rows (parseCsv csv))))
   \<and> (\<forall>key e. apiKey = Some key \<and> key \<noteq> [] \<and> up (firmsUrl key sp) = Rejected e \<longrightarrow>
          onRequestGet apiKey sp up =
            Some (Response 500 (ErrorBody (''Proxy error: '' @ message e))))
   \<and> (\<forall>key r e. apiKey = Some key \<and> key \<noteq> [] \<and> up (firmsUrl key sp) = Fulfilled r
            \<and> 200 \<le> status r \<and> status r \<le> 299 \<and> body_text r = Rejected e \<longrightarrow>
          onRequestGet apiKey sp up =
            Some (Response 500 (ErrorBody (''Proxy error: '' @ message e))))
   \<and> (\<forall>key. apiKey = Some key \<and> key \<noteq> [] \<and> up (firmsUrl key sp) = Pending \<longrightarrow>
          onRequestGet apiKey sp up = None)
   \<and> (\<forall>key r. apiKey = Some key \<and> key \<noteq> [] \<and> up (firmsUrl key sp) = Fulfilled r
            \<and> 200 \<le> status r \<and> status r \<le> 299 \<and> body_text r = Pending \<longrightarrow>
          onRequestGet apiKey sp up = None)"
proof (intro conjI allI impI)
  show "onRequestGet apiKey sp up =
      Some (Response 503 (ErrorBody ''FIRMS_API_KEY environment variable is not configured.''))"
    if "apiKey = None \<or> apiKey = Some []"
    using that by (auto simp: onRequestGet_def)
  show "onRequestGet apiKey sp up =
      Some (Response (status r)
        (ErrorBody (''FIRMS upstream error: HTTP '' @ show_nat (status r))))"
    if "apiKey = Some key \<and> key \<noteq> [] \<and> up (firmsUrl key sp) = Fulfilled r
        \<and> 300 \<le> status r \<and> status r \<le> 599 \<and> status r \<noteq> 304" for key r
    using that by (simp add: onRequestGet_def ok_def new_Response_def)
  show "\<exists>msg. onRequestGet apiKey sp up =
      Some (Response 500 (ErrorBody (''Proxy error: '' @ msg)))"
    if "apiKey = Some key \<and> key \<noteq> [] \<and> up (firmsUrl key sp) = Fulfilled r
        \<and> (status r < 200 \<or> 599 < status r \<or> status r = 304)" for key r
    using that by (auto simp: onRequestGet_def ok_def new_Response_def)
  show "onRequestGet apiKey sp up = Some (Response 200 (Rows (parseCsv csv)))"
    if "apiKey = Some key \<and> key \<noteq> [] \<and> up (firmsUrl key sp) = Fulfilled r
        \<and> 200 \<le> status r \<and> status r \<le> 299 \<and> body_text r = Fulfilled csv" for key r csv
    using that by (simp add: onRequestGet_def ok_def)
  show "onRequestGet apiKey sp up =
      Some (Response 500 (ErrorBody (''Proxy error: '' @ message e)))"
    if "apiKey = Some key \<and> key \<noteq> [] \<and> up (firmsUrl key sp) = Rejected e" for key e
    using that by (simp add: onRequestGet_def)
  show "onRequestGet apiKey sp up =
      Some (Response 500 (ErrorBody (''Proxy error: '' @ message e)))"
    if "apiKey = Some key \<and> key \<noteq> [] \<and> up (firmsUrl key sp) = Fulfilled r
        \<and> 200 \<le> status r \<and> status r \<le> 299 \<and> body_text r = Rejected e" for key r e
    using that by (simp add: onRequestGet_def ok_def)
  show "onRequestGet apiKey sp up = None"
    if "apiKey = Some key \<and> key \<noteq> [] \<and> up (firmsUrl key sp) = Pending" for key
    using that by (simp add: onRequestGet_def)
  show "onRequestGet apiKey sp up = None"
    if "apiKey = Some key \<and> key \<noteq> [] \<and> up (firmsUrl key sp) = Fulfilled r
        \<and> 200 \<le> status r \<and> status r \<le> 299 \<and> body_text r = Pending" for key r
    using that by (simp add: onRequestGet_def ok_def)
qed

theorem onRequestGet_status_witness:
  "onRequestGet None [''days'' \<mapsto> ''3''] firms_upstream =
     Some (Response 503 (ErrorBody ''FIRMS_API_KEY environment variable is not configured.''))
   \<and> onRequestGet (Some ''KEY'') [''days'' \<mapsto> ''3''] firms_upstream =
     Some (Response 200 (Rows [[''latitude'' \<mapsto> ''10.5'', ''longitude'' \<mapsto> ''20.1'']]))
   \<and> onRequestGet (Some ''OLD'') [''days'' \<mapsto> ''3''] firms_upstream =
     Some (Response 403 (ErrorBody ''FIRMS upstream error: HTTP 403''))
   \<and> (\<exists>msg. onRequestGet (Some ''SAME'') [''days'' \<mapsto> ''3''] firms_upstream =
     Some (Response 500 (ErrorBody (''Proxy error: '' @ msg))))
   \<and> onRequestGet (Some ''KEY'') [''days'' \<mapsto> ''3'']
        (\<lambda>u. Rejected (Exn ''TypeError'' ''internal error'')) =
     Some (Response 500 (ErrorBody ''Proxy error: internal error''))
   \<and> onRequestGet (Some ''KEY'') [''days'' \<mapsto> ''3''] (\<lambda>u. Pending) = None"
  using onRequestGet_status [of None "[''days'' \<mapsto> ''3'']" firms_upstream]
    onRequestGet_status [of "Some ''KEY''" "[''days'' \<mapsto> ''3'']" firms_upstream]
    onRequestGet_status [of "Some ''OLD''" "[''days'' \<mapsto> ''3'']" firms_upstream]
    onRequestGet_status [of "Some ''SAME''" "[''days'' \<mapsto> ''3'']" firms_upstream]
    onRequestGet_status [of "Some ''KEY''" "[''days'' \<mapsto> ''3'']"
      "\<lambda>u. Rejected (Exn ''TypeError'' ''internal error'')"]
    onRequestGet_status [of "Some ''KEY''" "[''days'' \<mapsto> ''3'']" "\<lambda>u. Pending"]
  by (simp add: proxy_defs is_space_def)

end
